theory Spec2Isabelle
  imports Complex_Main "HOL-Library.Sublist" "HOL-Library.Log_Nat"
begin

section \<open>The JavaScript runtime operations the services rely on\<close>

text \<open>
  Strings are lists of code units; the model covers the code units below 256, which is what
  \<^typ>\<open>char\<close> holds. Exceptions are values: a call either returns or throws, and a third
  outcome marks a call whose regular expression lies outside the fragment of the RegExp
  syntax that is modelled below.
\<close>

datatype js_error =
    Error string
  | TypeError string
  | HttpException string nat

datatype 'a outcome = Returns 'a | Throws js_error | NotModelled

text \<open>\<^verbatim>\<open>x || d\<close> on an optional string: \<^verbatim>\<open>undefined\<close> and the empty string are falsy.\<close>

definition or_else :: "string option \<Rightarrow> string \<Rightarrow> string" where
  "or_else x d = (case x of None \<Rightarrow> d | Some s \<Rightarrow> if s = [] then d else s)"

text \<open>
  \<^verbatim>\<open>Array.prototype.slice(start)\<close>: a negative start counts from the end, and both ends are
  clamped to the array.
\<close>

definition slice :: "int \<Rightarrow> 'a list \<Rightarrow> 'a list" where
  "slice start xs =
     (let len = int (length xs);
          k = (if start < 0 then max (len + start) 0 else min start len)
      in drop (nat k) xs)"

text \<open>\<^verbatim>\<open>Array.prototype.join(sep)\<close> on an array of strings.\<close>

fun join :: "string \<Rightarrow> string list \<Rightarrow> string" where
  "join sep [] = []"
| "join sep [x] = x"
| "join sep (x # y # ys) = x @ sep @ join sep (y # ys)"

subsection \<open>String.prototype.replace with a global regular expression\<close>

text \<open>
  \<^verbatim>\<open>GetSubstitution\<close> for a match without capture groups: in the replacement text
  \<^verbatim>\<open>$$\<close> stands for a dollar sign, \<^verbatim>\<open>$&\<close> for the matched text, \<^verbatim>\<open>$`\<close> for the part of
  the subject before the match and \<^verbatim>\<open>$'\<close> for the part after it; every other character,
  a dollar sign before anything else included, stands for itself.
\<close>

fun GetSubstitution :: "string \<Rightarrow> string \<Rightarrow> string \<Rightarrow> string \<Rightarrow> string" where
  "GetSubstitution matched preceding following [] = []"
| "GetSubstitution matched preceding following [c] = [c]"
| "GetSubstitution matched preceding following (c # d # r) =
     (if c = CHR ''$'' \<and> d = CHR ''$'' then CHR ''$'' # GetSubstitution matched preceding following r
      else if c = CHR ''$'' \<and> d = CHR ''&'' then matched @ GetSubstitution matched preceding following r
      else if c = CHR ''$'' \<and> d = CHR 0x60 then preceding @ GetSubstitution matched preceding following r
      else if c = CHR ''$'' \<and> d = CHR 0x27 then following @ GetSubstitution matched preceding following r
      else c # GetSubstitution matched preceding following (d # r))"

text \<open>
  A regular expression whose source is a plain sequence of characters matches exactly that
  sequence. With the \<^verbatim>\<open>g\<close> flag, \<^verbatim>\<open>replace\<close> scans the subject from the left, replaces
  every match by the expansion of the replacement text and resumes after the match; an empty
  pattern matches once at every index. The third argument is the part of the subject already
  scanned, its last character first.
\<close>

function replace_scan :: "string \<Rightarrow> string \<Rightarrow> string \<Rightarrow> string \<Rightarrow> string" where
  "replace_scan p v scanned [] = (if p = [] then GetSubstitution [] (rev scanned) [] v else [])"
| "replace_scan p v scanned (c # cs) =
     (if p = []
      then GetSubstitution [] (rev scanned) (c # cs) v @ c # replace_scan p v (c # scanned) cs
      else if prefix p (c # cs)
      then GetSubstitution p (rev scanned) (drop (length p) (c # cs)) v
             @ replace_scan p v (rev p @ scanned) (drop (length p) (c # cs))
      else c # replace_scan p v (c # scanned) cs)"
  by pat_completeness auto
termination
  by (relation "measure (\<lambda>(p, v, scanned, s). length s)") auto

datatype js_regexp = Literal_g string

fun replace :: "string \<Rightarrow> js_regexp \<Rightarrow> string \<Rightarrow> string" where
  "replace str (Literal_g p) v = replace_scan p v [] str"

text \<open>
  \<^verbatim>\<open>new RegExp(source, "g")\<close> for a source of the shape \<^verbatim>\<open>{{body}}\<close> whose body has no syntax
  character and no comma. An opening brace that starts no quantifier is an ordinary
  character, so the source matches itself, unless the body is a decimal number \<open>n\<close>: then
  \<^verbatim>\<open>{n}\<close> is a quantifier on the first brace and the expression matches \<open>n\<close> opening braces
  followed by one closing brace. Every other source is outside the model.
\<close>

definition syntax_character :: "char \<Rightarrow> bool" where
  "syntax_character c = (c \<in> set ''^$.*+?()[]{}|'' \<or> c = CHR 0x5C)"

definition plain_character :: "char \<Rightarrow> bool" where
  "plain_character c = (\<not> syntax_character c \<and> c \<noteq> CHR '','')"

definition decimal_digit :: "char \<Rightarrow> bool" where
  "decimal_digit c = (c \<in> set ''0123456789'')"

definition decimal_value :: "string \<Rightarrow> nat" where
  "decimal_value ds = foldl (\<lambda>n c. 10 * n + (of_char c - 48)) 0 ds"

definition decimal_number :: "string \<Rightarrow> bool" where
  "decimal_number body = (body \<noteq> [] \<and> list_all decimal_digit body)"

definition RegExp_g :: "string \<Rightarrow> js_regexp option" where
  "RegExp_g source =
     (let body = drop 2 (take (length source - 2) source)
      in if 4 \<le> length source \<and> take 2 source = ''{{''
            \<and> drop (length source - 2) source = ''}}'' \<and> list_all plain_character body
         then Some (Literal_g (if decimal_number body
                               then replicate (decimal_value body) CHR ''{'' @ ''}''
                               else source))
         else None)"


subsection \<open>Numbers\<close>

text \<open>
  A number is a binary64 value. Token counts are natural numbers and the prices are
  positive decimals, and for a count that a number holds no result of the cost computation
  is subnormal or overflows; so the exponent range of binary64, the infinities and the
  negative zero play no part and are left out. A finite number is the rational it denotes,
  and the result of an operation is the exact result rounded to 53 significant binary
  digits, a tie to the even one. \<^verbatim>\<open>NaN\<close> is what arithmetic on \<^verbatim>\<open>undefined\<close> gives.
\<close>

datatype number = Finite rat | NaN

text \<open>
  The binary exponent of a positive rational \<open>x\<close>: the integer \<open>e\<close> for which \<open>x\<close> is at least
  the power \<open>e\<close> of 2 and below the power \<open>e + 1\<close>.
\<close>

definition exponent :: "rat \<Rightarrow> int" where
  "exponent x =
     (let (a, b) = quotient_of x; e = bitlen a - bitlen b
      in if 2 powi e \<le> x then e else e - 1)"

definition round_half_even :: "rat \<Rightarrow> int" where
  "round_half_even x =
     (let f = \<lfloor>x\<rfloor>; d = x - of_int f
      in if d < 1 / 2 then f else if 1 / 2 < d then f + 1 else if even f then f else f + 1)"

definition binary64 :: "rat \<Rightarrow> rat" where
  "binary64 x =
     (if x = 0 then 0
      else let ulp = 2 powi (exponent \<bar>x\<bar> - 52)
           in of_int (round_half_even (x / ulp)) * ulp)"

text \<open>A decimal literal of the program text denotes the number nearest to it.\<close>

definition literal :: "rat \<Rightarrow> number" where
  "literal d = Finite (binary64 d)"

text \<open>\<^verbatim>\<open>x / 1_000_000\<close>, \<^verbatim>\<open>x * y\<close> and \<^verbatim>\<open>x + y\<close>.\<close>

fun per_million :: "number \<Rightarrow> number" where
  "per_million (Finite x) = Finite (binary64 (x / 1000000))"
| "per_million NaN = NaN"

fun multiply :: "number \<Rightarrow> number \<Rightarrow> number" where
  "multiply (Finite x) (Finite y) = Finite (binary64 (x * y))"
| "multiply x y = NaN"

fun add :: "number \<Rightarrow> number \<Rightarrow> number" where
  "add (Finite x) (Finite y) = Finite (binary64 (x + y))"
| "add x y = NaN"

text \<open>An operand that is \<^verbatim>\<open>undefined\<close> converts to \<^verbatim>\<open>NaN\<close>.\<close>

fun ToNumber :: "number option \<Rightarrow> number" where
  "ToNumber None = NaN"
| "ToNumber (Some x) = x"

text \<open>
  \<^verbatim>\<open>x.toFixed(digits)\<close> is a string: the decimal notation, with that many digits after the
  point, of the multiple of the last place that is nearest to the magnitude of \<open>x\<close>, the
  larger one at a tie, with the sign of \<open>x\<close>; or the string \<^verbatim>\<open>NaN\<close>. The model keeps the
  decimal that the string denotes, and \<^verbatim>\<open>Number(string)\<close> is the number nearest to that
  decimal. (From the magnitude of ten to the power 21 on, the string is that of the number
  itself, and reading it gives the number back, as it does here.)
\<close>

fun toFixed :: "number \<Rightarrow> nat \<Rightarrow> rat option" where
  "toFixed (Finite x) digits = Some (sgn x * of_int \<lfloor>\<bar>x\<bar> * 10 ^ digits + 1 / 2\<rfloor> / 10 ^ digits)"
| "toFixed NaN digits = None"

fun StringToNumber :: "rat option \<Rightarrow> number" where
  "StringToNumber (Some d) = Finite (binary64 d)"
| "StringToNumber None = NaN"

text \<open>The comparison \<^verbatim>\<open>x <= y\<close>.\<close>

fun less_equal :: "number \<Rightarrow> number \<Rightarrow> bool" where
  "less_equal (Finite x) (Finite y) = (x \<le> y)"
| "less_equal x y = False"

section \<open>The interfaces\<close>

datatype role = system | user | assistant

record AIMessage =
  role :: role
  content :: string
  timestamp :: "nat option"

datatype template_category = conversation | correction | analysis | system'

record PromptTemplate =
  id' :: string
  name :: string
  description :: string
  template :: string
  variables :: "string list"
  category :: template_category
  template_language :: "string option"
  template_level :: "string option"

text \<open>
  \<^verbatim>\<open>additionalContext\<close> is a record of extra named values; the model keeps its own,
  string-valued properties. Reading a name that every object inherits does not give
  \<^verbatim>\<open>undefined\<close>, so reading such a name from the record is outside the model.
\<close>

definition inherited_property :: "string \<Rightarrow> bool" where
  "inherited_property k =
     (k \<in> set [''constructor'', ''hasOwnProperty'', ''isPrototypeOf'', ''propertyIsEnumerable'',
                ''toLocaleString'', ''toString'', ''valueOf'', ''__proto__'', ''__defineGetter__'',
                ''__defineSetter__'', ''__lookupGetter__'', ''__lookupSetter__''])"

record PromptContext =
  userId :: "string option"
  conversationId :: "string option"
  language :: "string option"
  level :: "string option"
  userMessage :: "string option"
  conversationHistory :: "AIMessage list option"
  additionalContext :: "(string \<times> string) list option"

section \<open>OpenAIService\<close>

text \<open>
  The price table, per million tokens. An entry is an object with the properties
  \<^verbatim>\<open>input\<close> and \<^verbatim>\<open>output\<close>; a property an object does not have reads as \<^verbatim>\<open>undefined\<close>.
\<close>

record ModelPricing =
  input :: "number option"
  "output" :: "number option"

definition pricing :: "(string \<times> ModelPricing) list" where
  "pricing =
     [(''gpt-4o-mini'', \<lparr>input = Some (literal (15 / 100)), output = Some (literal (6 / 10))\<rparr>),
      (''gpt-4o'', \<lparr>input = Some (literal (25 / 10)), output = Some (literal 10)\<rparr>),
      (''gpt-4'', \<lparr>input = Some (literal 30), output = Some (literal 60)\<rparr>),
      (''gpt-3.5-turbo'', \<lparr>input = Some (literal (5 / 10)), output = Some (literal (15 / 10))\<rparr>)]"

text \<open>
  \<^verbatim>\<open>this.pricing[model]\<close>: the entry of the model; or, for a name that every object inherits,
  the inherited member, a function or the prototype object, which has neither an \<^verbatim>\<open>input\<close>
  nor an \<^verbatim>\<open>output\<close>; or \<^verbatim>\<open>undefined\<close>.
\<close>

definition pricing_member :: "string \<Rightarrow> ModelPricing option" where
  "pricing_member model =
     (case map_of pricing model of
        Some entry \<Rightarrow> Some entry
      | None \<Rightarrow> if inherited_property model then Some \<lparr>input = None, output = None\<rparr> else None)"

text \<open>The warning that is logged for a model without pricing has no part in the result.\<close>

definition calculateCost :: "string \<Rightarrow> number \<Rightarrow> number \<Rightarrow> number" where
  "calculateCost model promptTokens completionTokens =
     (case pricing_member model of
        None \<Rightarrow> Finite 0
      | Some modelPricing \<Rightarrow>
          (let promptCost = multiply (per_million promptTokens) (ToNumber (input modelPricing));
               completionCost =
                 multiply (per_million completionTokens) (ToNumber (output modelPricing))
           in StringToNumber (toFixed (add promptCost completionCost) 6)))"

section \<open>PromptTemplateService\<close>

definition newline :: string where
  "newline = [CHR 0x0A]"

subsection \<open>The default templates\<close>

definition conversation_tutor :: PromptTemplate where
  \<open>conversation_tutor =
     \<lparr>id' = ''conversation_tutor'',
      name = ''Language Tutor'',
      description = ''AI tutor for language learning conversations'',
      template = join newline
        [''You are a friendly and encouraging {{language}} language tutor. Your student is at a {{level}} level and wants to practice conversation skills.'',
         '''',
         ''LEVEL-SPECIFIC GUIDELINES:'',
         '''',
         ''FOR BEGINNER LEVEL:'',
         ''- Use VERY simple words and short sentences (5-7 words max)'',
         ''- Speak like you're talking to someone who has NEVER studied {{language}} before'',
         ''- Use present tense mainly (I am, you are, this is...)'',
         ''- Include basic vocabulary explanations when needed'',
         ''- Add simple translations or explanations in parentheses occasionally'',
         ''- Ask ONE simple question at a time'',
         ''- Repeat important words'',
         ''- Example: "Hello! I am good. How are you? (How = comment)" instead of complex sentences'',
         '''',
         ''FOR INTERMEDIATE LEVEL:'',
         ''- Use everyday vocabulary and moderate sentence length'',
         ''- Mix present and past tenses'',
         ''- Provide gentle corrections with explanations'',
         ''- Ask follow-up questions to encourage speaking'',
         '''',
         ''FOR ADVANCED LEVEL:'',
         ''- Use natural, flowing language'',
         ''- Include idioms and complex grammar'',
         ''- Focus on nuance and cultural context'',
         ''- Challenge with sophisticated topics'',
         '''',
         ''Previous conversation context:'',
         ''{{conversationHistory}}'',
         '''',
         ''Student's message: "{{userMessage}}"'',
         '''',
         ''Respond as a helpful tutor, adapting your language complexity to the {{level}} level. For beginners, be extra simple and clear.''],
      variables = [''language'', ''level'', ''conversationHistory'', ''userMessage''],
      category = conversation,
      template_language = None,
      template_level = None\<rparr>\<close>

definition conversation_friend :: PromptTemplate where
  \<open>conversation_friend =
     \<lparr>id' = ''conversation_friend'',
      name = ''Conversation Partner'',
      description = ''AI conversation partner for casual practice'',
      template = join newline
        [''You are a friendly conversation partner helping someone practice {{language}}. Act like a native speaker friend who is patient and helpful.'',
         '''',
         ''ADAPT YOUR LANGUAGE TO THE {{level}} LEVEL:'',
         '''',
         ''FOR BEGINNER LEVEL:'',
         ''- Use SUPER simple words only (yes, no, good, bad, I, you, like, want...)'',
         ''- Keep sentences very short (3-5 words)'',
         ''- Speak like talking to someone learning their first {{language}} words'',
         ''- Repeat key words: "Good! That is good!"'',
         ''- Use basic present tense only'',
         ''- Be very encouraging and patient'',
         ''- Example: "Hi! I am fine. You good?" instead of "Hey! I'm doing great, how about you?"'',
         '''',
         ''FOR INTERMEDIATE LEVEL:'',
         ''- Use casual, everyday language'',
         ''- Mix tenses naturally but keep it simple'',
         ''- Show genuine interest in their topics'',
         ''- Be encouraging and friendly'',
         '''',
         ''FOR ADVANCED LEVEL:'',
         ''- Use natural, native-level conversation'',
         ''- Include slang and expressions'',
         ''- Challenge them with interesting topics'',
         ''- Be more spontaneous and creative'',
         '''',
         ''Context: {{conversationHistory}}'',
         '''',
         ''Their message: "{{userMessage}}"'',
         '''',
         ''Respond as a friendly conversation partner, matching the {{level}} complexity. For beginners, be extremely simple and clear.''],
      variables = [''language'', ''level'', ''conversationHistory'', ''userMessage''],
      category = conversation,
      template_language = None,
      template_level = None\<rparr>\<close>

definition grammar_correction :: PromptTemplate where
  \<open>grammar_correction =
     \<lparr>id' = ''grammar_correction'',
      name = ''Grammar Correction'',
      description = ''Detailed grammar analysis and correction'',
      template = join newline
        [''Analyze the following {{language}} text for important grammatical and vocabulary errors. Focus on meaningful issues that affect comprehension and language learning.'',
         '''',
         ''Text: "{{text}}"'',
         ''Level: {{level}}'',
         '''',
         ''IMPORTANT GUIDELINES:'',
         ''- IGNORE capitalization errors (e.g., "hi" vs "Hi")'',
         ''- IGNORE punctuation spacing (e.g., spaces before question marks)'',
         ''- IGNORE minor punctuation issues unless they severely affect meaning'',
         ''- FOCUS ON: verb tenses, subject-verb agreement, word order, vocabulary usage, prepositions, articles (a/an/the)'',
         ''- FOCUS ON: sentence structure and meaningful grammatical mistakes'',
         '''',
         ''EXPLANATION STYLE BASED ON LEVEL:'',
         '''',
         ''FOR BEGINNER LEVEL:'',
         ''- Use VERY simple explanations'',
         ''- Explain basic grammar rules in simple terms'',
         ''- Use examples with basic vocabulary'',
         ''- Be extra encouraging ("Good try!" "Almost there!")'',
         ''- Focus on 1-2 main errors only'',
         ''- Example: "Use 'I am' not 'I is'. We always say 'I am happy'."'',
         '''',
         ''FOR INTERMEDIATE/ADVANCED LEVELS:'',
         ''- Provide detailed grammatical explanations'',
         ''- Include multiple examples and rules'',
         ''- Challenge with more complex corrections'',
         '''',
         ''Please provide:'',
         ''1. **Corrected Version**: The text with ONLY major grammatical/vocabulary errors fixed'',
         ''2. **Error Analysis**: List each SIGNIFICANT error with explanation adapted to {{level}} level'',
         ''3. **Grammar Rules**: Simple rules for beginners, detailed for others'',
         ''4. **Learning Tips**: Level-appropriate suggestions'',
         '''',
         ''Focus on errors that truly impact language learning and communication effectiveness.''],
      variables = [''language'', ''text'', ''level''],
      category = correction,
      template_language = None,
      template_level = None\<rparr>\<close>

definition style_improvement :: PromptTemplate where
  \<open>style_improvement =
     \<lparr>id' = ''style_improvement'',
      name = ''Style Improvement'',
      description = ''Writing style analysis and suggestions'',
      template = join newline
        [''Analyze and improve the writing style of this {{language}} text:'',
         '''',
         ''Text: "{{text}}"'',
         '''',
         ''Please provide:'',
         ''1. **Style Assessment**: Evaluate formality, clarity, and flow'',
         ''2. **Improved Version**: Rewrite with better style'',
         ''3. **Specific Changes**: Explain each improvement made'',
         ''4. **Style Tips**: General advice for better writing'',
         '''',
         ''Consider the {{level}} level of the learner and provide appropriate suggestions.''],
      variables = [''language'', ''text'', ''level''],
      category = correction,
      template_language = None,
      template_level = None\<rparr>\<close>

definition vocabulary_analysis :: PromptTemplate where
  \<open>vocabulary_analysis =
     \<lparr>id' = ''vocabulary_analysis'',
      name = ''Vocabulary Analysis'',
      description = ''Vocabulary usage analysis and enhancement'',
      template = join newline
        [''Analyze the vocabulary usage in this {{language}} text and suggest improvements:'',
         '''',
         ''Text: "{{text}}"'',
         '''',
         ''For a {{level}} level learner, please provide:'',
         ''1. **Vocabulary Assessment**: Current level and appropriateness'',
         ''2. **Enhanced Version**: Text with improved vocabulary'',
         ''3. **Word Explanations**: Meaning and usage of new words suggested'',
         ''4. **Vocabulary Building Tips**: How to expand vocabulary at this level'',
         '''',
         ''Focus on making the vocabulary more sophisticated while remaining appropriate for the learner's level.''],
      variables = [''language'', ''text'', ''level''],
      category = analysis,
      template_language = None,
      template_level = None\<rparr>\<close>

definition conversation_starter :: PromptTemplate where
  \<open>conversation_starter =
     \<lparr>id' = ''conversation_starter'',
      name = ''Conversation Starter'',
      description = ''Generate conversation starters for practice'',
      template = join newline
        [''Generate engaging conversation starters for a {{level}} level {{language}} learner.'',
         '''',
         ''Topic interests: {{topics}}'',
         '''',
         ''Create 5 conversation starters that are:'',
         ''- Appropriate for {{level}} level'',
         ''- Engaging and interesting'',
         ''- Encourage extended dialogue'',
         ''- Cover different conversation skills (asking questions, expressing opinions, describing experiences)'',
         '''',
         ''Format each starter with a brief explanation of what conversation skills it practices.''],
      variables = [''level'', ''language'', ''topics''],
      category = system',
      template_language = None,
      template_level = None\<rparr>\<close>

definition defaultTemplates :: "PromptTemplate list" where
  "defaultTemplates =
     [conversation_tutor, conversation_friend, grammar_correction, style_improvement,
      vocabulary_analysis, conversation_starter]"

subsection \<open>The template map\<close>

text \<open>
  The service keeps a \<^verbatim>\<open>Map\<close> from template id to template. \<^verbatim>\<open>Map.set\<close> overwrites
  the value of a key that is present, in place, and appends a new key at the end.
\<close>

type_synonym template_map = "(string \<times> PromptTemplate) list"

fun Map_set :: "string \<Rightarrow> PromptTemplate \<Rightarrow> template_map \<Rightarrow> template_map" where
  "Map_set k v [] = [(k, v)]"
| "Map_set k v ((k', v') # m) = (if k' = k then (k, v) # m else (k', v') # Map_set k v m)"

definition addTemplate :: "PromptTemplate \<Rightarrow> template_map \<Rightarrow> template_map" where
  "addTemplate t templates = Map_set (id' t) t templates"

definition initializeDefaultTemplates :: "template_map \<Rightarrow> template_map" where
  "initializeDefaultTemplates templates = fold (\<lambda>t m. Map_set (id' t) t m) defaultTemplates templates"

definition getTemplate :: "template_map \<Rightarrow> string \<Rightarrow> PromptTemplate option" where
  "getTemplate templates i = map_of templates i"

definition getAllTemplates :: "template_map \<Rightarrow> PromptTemplate list" where
  "getAllTemplates templates = map snd templates"

definition getTemplatesByCategory :: "template_map \<Rightarrow> template_category \<Rightarrow> PromptTemplate list" where
  "getTemplatesByCategory templates c = filter (\<lambda>t. category t = c) (map snd templates)"

subsection \<open>Rendering\<close>

definition formatConversationHistory :: "AIMessage list \<Rightarrow> string" where
  "formatConversationHistory messages =
     (if length messages = 0 then ''No previous conversation.''
      else join newline
             (map (\<lambda>msg. (if role msg = user then ''Student'' else ''Tutor'') @ '': '' @ content msg)
                (slice (- 5) messages)))"

text \<open>The \<^verbatim>\<open>switch\<close> of \<^verbatim>\<open>renderTemplate\<close>: the value a declared variable stands for.\<close>

definition lookup_property :: "(string \<times> string) list option \<Rightarrow> string \<Rightarrow> string option" where
  "lookup_property obj k = (case obj of None \<Rightarrow> None | Some ps \<Rightarrow> map_of ps k)"

definition variable_value :: "PromptContext \<Rightarrow> string \<Rightarrow> string" where
  "variable_value context variable =
     (if variable = ''language'' then or_else (language context) ''English''
      else if variable = ''level'' then or_else (level context) ''intermediate''
      else if variable = ''userMessage'' then or_else (userMessage context) ''''
      else if variable = ''conversationHistory''
        then formatConversationHistory
               (case conversationHistory context of None \<Rightarrow> [] | Some h \<Rightarrow> h)
      else if variable = ''text'' then or_else (userMessage context) ''''
      else if variable = ''topics''
        then or_else (lookup_property (additionalContext context) ''topics'') ''general conversation''
      else or_else (lookup_property (additionalContext context) variable) '''')"

definition placeholder :: "string \<Rightarrow> string" where
  "placeholder variable = ''{{'' @ variable @ ''}}''"

text \<open>
  The \<^verbatim>\<open>forEach\<close> over the declared variables, on the partially rendered template. The
  outcome is outside the model when a variable reads an inherited name from the record or
  its placeholder is outside the modelled regular expressions.
\<close>

definition reads_inherited :: "PromptContext \<Rightarrow> string \<Rightarrow> bool" where
  "reads_inherited context variable =
     (inherited_property variable \<and> additionalContext context \<noteq> None)"

fun substitute :: "PromptContext \<Rightarrow> string list \<Rightarrow> string \<Rightarrow> string outcome" where
  "substitute context [] renderedTemplate = Returns renderedTemplate"
| "substitute context (variable # rest) renderedTemplate =
     (if reads_inherited context variable then NotModelled
      else case RegExp_g (placeholder variable) of
             None \<Rightarrow> NotModelled
           | Some re \<Rightarrow>
               substitute context rest
                 (replace renderedTemplate re (variable_value context variable)))"

definition renderTemplate :: "template_map \<Rightarrow> string \<Rightarrow> PromptContext \<Rightarrow> string outcome" where
  "renderTemplate templates templateId context =
     (case getTemplate templates templateId of
        None \<Rightarrow> Throws (Error (''Template not found: '' @ templateId))
      | Some t \<Rightarrow> substitute context (variables t) (template t))"

section \<open>AIProviderService\<close>

datatype AIProvider = OPENAI | ANTHROPIC

fun provider_id :: "AIProvider \<Rightarrow> string" where
  "provider_id OPENAI = ''openai''"
| "provider_id ANTHROPIC = ''anthropic''"

text \<open>
  The options of a completion, with the provider the orchestrator adds to them. A number is
  only ever passed on or replaced by a constant, never computed with, so a temperature is
  the decimal it is written as.
\<close>

record AICompletionOptions =
  temperature :: "rat option"
  maxTokens :: "nat option"
  model :: "string option"
  opt_conversationId :: "string option"
  opt_userId :: "string option"
  provider :: "AIProvider option"

text \<open>\<^verbatim>\<open>{...options}\<close>: spreading \<^verbatim>\<open>undefined\<close> gives an object without properties.\<close>

definition spread :: "AICompletionOptions option \<Rightarrow> AICompletionOptions" where
  "spread options =
     (case options of
        None \<Rightarrow> \<lparr>temperature = None, maxTokens = None, model = None, opt_conversationId = None,
                 opt_userId = None, provider = None\<rparr>
      | Some opts \<Rightarrow> opts)"

text \<open>The object literals the callers pass as \<^verbatim>\<open>context\<close>.\<close>

record context_param =
  ctx_language :: "string option"
  ctx_level :: "string option"
  ctx_userId :: "string option"
  ctx_conversationId :: "string option"
  ctx_topics :: "string option"

text \<open>
  \<^verbatim>\<open>OpenAIService.generateCompletion\<close> reaches the provider over the network: it is a
  parameter of the model, a function from the messages and options it is called with to the
  response it returns or the error it throws. Every operation returns, beside its outcome,
  the calls it made to the adapter, in order.
\<close>

type_synonym adapter_call = "AIMessage list \<times> AICompletionOptions option"

type_synonym 'r adapter = "AIMessage list \<Rightarrow> AICompletionOptions option \<Rightarrow> js_error + 'r"

record 'r AIProviderService =
  openaiService :: "'r adapter"
  promptTemplateService :: template_map
  defaultProvider :: AIProvider

fun instanceof_HttpException :: "js_error \<Rightarrow> bool" where
  "instanceof_HttpException (HttpException message status) = True"
| "instanceof_HttpException e = False"

definition BAD_REQUEST :: nat where
  "BAD_REQUEST = 400"

definition INTERNAL_SERVER_ERROR :: nat where
  "INTERNAL_SERVER_ERROR = 500"

text \<open>The \<^verbatim>\<open>catch\<close> blocks of \<^verbatim>\<open>generateChatResponse\<close> and of \<^verbatim>\<open>analyzeText\<close>.\<close>

definition catch_generateChatResponse :: "js_error \<Rightarrow> js_error" where
  "catch_generateChatResponse error =
     (if instanceof_HttpException error then error
      else HttpException ''Failed to generate AI response'' INTERNAL_SERVER_ERROR)"

definition catch_analyzeText :: "js_error \<Rightarrow> js_error" where
  "catch_analyzeText error =
     (if instanceof_HttpException error then error
      else HttpException ''Failed to analyze text'' INTERNAL_SERVER_ERROR)"

definition selected_provider :: "'r AIProviderService \<Rightarrow> AICompletionOptions option \<Rightarrow> AIProvider" where
  "selected_provider svc options =
     (case options of
        None \<Rightarrow> defaultProvider svc
      | Some opts \<Rightarrow> (case provider opts of None \<Rightarrow> defaultProvider svc | Some p \<Rightarrow> p))"

definition generateChatResponse ::
  "'r AIProviderService \<Rightarrow> AIMessage list \<Rightarrow> AICompletionOptions option
     \<Rightarrow> 'r outcome \<times> adapter_call list" where
  "generateChatResponse svc messages options =
     (case selected_provider svc options of
        OPENAI \<Rightarrow>
          (case openaiService svc messages options of
             Inr response \<Rightarrow> (Returns response, [(messages, options)])
           | Inl error \<Rightarrow> (Throws (catch_generateChatResponse error), [(messages, options)]))
      | p \<Rightarrow>
          (Throws (catch_generateChatResponse
                     (HttpException (''Unsupported AI provider: '' @ provider_id p) BAD_REQUEST)),
           []))"

definition generateTutorResponse ::
  "'r AIProviderService \<Rightarrow> string \<Rightarrow> AIMessage list \<Rightarrow> context_param
     \<Rightarrow> AICompletionOptions option \<Rightarrow> 'r outcome \<times> adapter_call list" where
  "generateTutorResponse svc userMessage' conversationHistory' context options =
     (let promptContext =
            \<lparr>userId = ctx_userId context,
             conversationId = ctx_conversationId context,
             language = Some (or_else (ctx_language context) ''English''),
             level = Some (or_else (ctx_level context) ''intermediate''),
             userMessage = Some userMessage',
             conversationHistory = Some conversationHistory',
             additionalContext = None\<rparr>
      in case renderTemplate (promptTemplateService svc) ''conversation_tutor'' promptContext of
           Returns systemPrompt \<Rightarrow>
             generateChatResponse svc
               ([\<lparr>role = system, content = systemPrompt, timestamp = None\<rparr>]
                  @ slice (- 10) conversationHistory'
                  @ [\<lparr>role = user, content = userMessage', timestamp = None\<rparr>])
               options
         | Throws error \<Rightarrow> (Throws error, [])
         | NotModelled \<Rightarrow> (NotModelled, []))"

definition generateConversationPartnerResponse ::
  "'r AIProviderService \<Rightarrow> string \<Rightarrow> AIMessage list \<Rightarrow> context_param
     \<Rightarrow> AICompletionOptions option \<Rightarrow> 'r outcome \<times> adapter_call list" where
  "generateConversationPartnerResponse svc userMessage' conversationHistory' context options =
     (let promptContext =
            \<lparr>userId = ctx_userId context,
             conversationId = ctx_conversationId context,
             language = Some (or_else (ctx_language context) ''English''),
             level = Some (or_else (ctx_level context) ''intermediate''),
             userMessage = Some userMessage',
             conversationHistory = Some conversationHistory',
             additionalContext = None\<rparr>
      in case renderTemplate (promptTemplateService svc) ''conversation_friend'' promptContext of
           Returns systemPrompt \<Rightarrow>
             generateChatResponse svc
               ([\<lparr>role = system, content = systemPrompt, timestamp = None\<rparr>]
                  @ slice (- 8) conversationHistory'
                  @ [\<lparr>role = user, content = userMessage', timestamp = None\<rparr>])
               (Some ((spread options)\<lparr>temperature := Some (8 / 10)\<rparr>))
         | Throws error \<Rightarrow> (Throws error, [])
         | NotModelled \<Rightarrow> (NotModelled, []))"

datatype analysis_type = grammar | style | vocabulary

definition analyzeText ::
  "'r AIProviderService \<Rightarrow> string \<Rightarrow> analysis_type \<Rightarrow> context_param
     \<Rightarrow> AICompletionOptions option \<Rightarrow> 'r outcome \<times> adapter_call list" where
  "analyzeText svc text analysisType context options =
     (let promptContext =
            \<lparr>userId = None,
             conversationId = None,
             language = Some (or_else (ctx_language context) ''English''),
             level = Some (or_else (ctx_level context) ''intermediate''),
             userMessage = Some text,
             conversationHistory = None,
             additionalContext =
               Some [(''text'', text), (''level'', or_else (ctx_level context) ''intermediate'')]\<rparr>;
          templateId =
            (case analysisType of
               grammar \<Rightarrow> ''grammar_correction''
             | style \<Rightarrow> ''style_improvement''
             | vocabulary \<Rightarrow> ''vocabulary_analysis'')
      in case renderTemplate (promptTemplateService svc) templateId promptContext of
           Returns analysisPrompt \<Rightarrow>
             (let messages = [\<lparr>role = user, content = analysisPrompt, timestamp = None\<rparr>];
                  options' = Some ((spread options)\<lparr>temperature := Some (3 / 10)\<rparr>)
              in case selected_provider svc options of
                   OPENAI \<Rightarrow>
                     (case openaiService svc messages options' of
                        Inr response \<Rightarrow> (Returns response, [(messages, options')])
                      | Inl error \<Rightarrow> (Throws (catch_analyzeText error), [(messages, options')]))
                 | p \<Rightarrow>
                     (Throws (catch_analyzeText
                                (HttpException (''Unsupported AI provider: '' @ provider_id p)
                                   BAD_REQUEST)),
                      []))
         | Throws error \<Rightarrow> (Throws (catch_analyzeText error), [])
         | NotModelled \<Rightarrow> (NotModelled, []))"

definition generateConversationStarters ::
  "'r AIProviderService \<Rightarrow> context_param \<Rightarrow> AICompletionOptions option
     \<Rightarrow> 'r outcome \<times> adapter_call list" where
  "generateConversationStarters svc context options =
     (let promptContext =
            \<lparr>userId = None,
             conversationId = None,
             language = Some (or_else (ctx_language context) ''English''),
             level = Some (or_else (ctx_level context) ''intermediate''),
             userMessage = None,
             conversationHistory = None,
             additionalContext =
               Some [(''topics'',
                      or_else (ctx_topics context)
                        ''general conversation, daily life, hobbies, travel'')]\<rparr>
      in case renderTemplate (promptTemplateService svc) ''conversation_starter'' promptContext of
           Returns prompt \<Rightarrow>
             generateChatResponse svc
               [\<lparr>role = user, content = prompt, timestamp = None\<rparr>]
               (Some ((spread options)\<lparr>temperature := Some (8 / 10)\<rparr>))
         | Throws error \<Rightarrow> (Throws error, [])
         | NotModelled \<Rightarrow> (NotModelled, []))"

definition getAvailableModels :: "'r AIProviderService \<Rightarrow> AIProvider option \<Rightarrow> string list" where
  "getAvailableModels svc provider' =
     (case (case provider' of None \<Rightarrow> defaultProvider svc | Some p \<Rightarrow> p) of
        OPENAI \<Rightarrow>
          [''gpt-4o-mini'', ''gpt-4o'', ''gpt-4-turbo'', ''gpt-4'', ''gpt-3.5-turbo'',
           ''gpt-3.5-turbo-16k'']
      | p \<Rightarrow> [])"

definition validateProviderConnection ::
  "'r AIProviderService \<Rightarrow> AIProvider option \<Rightarrow> bool \<times> adapter_call list" where
  "validateProviderConnection svc provider' =
     (let targetProvider = (case provider' of None \<Rightarrow> defaultProvider svc | Some p \<Rightarrow> p);
          testMessages =
            [\<lparr>role = user, content = ''Hello, this is a connection test.'', timestamp = None\<rparr>];
          attempt =
            generateChatResponse svc testMessages
              (Some \<lparr>temperature = Some 0, maxTokens = Some 10, model = None,
                     opt_conversationId = None, opt_userId = None,
                     provider = Some targetProvider\<rparr>)
      in case fst attempt of
           Returns response \<Rightarrow> (True, snd attempt)
         | failure \<Rightarrow> (False, snd attempt))"

section \<open>DemoController\<close>

subsection \<open>Strings and regular expressions\<close>

definition white_space :: "char \<Rightarrow> bool" where
  "white_space c = (c \<in> {CHR 0x09, CHR 0x0A, CHR 0x0B, CHR 0x0C, CHR 0x0D, CHR 0x20, CHR 0xA0})"

definition trim :: "string \<Rightarrow> string" where
  "trim s = rev (dropWhile white_space (rev (dropWhile white_space s)))"

definition lower_case :: "char \<Rightarrow> char" where
  "lower_case c =
     (let n = (of_char c :: nat)
      in if (65 \<le> n \<and> n \<le> 90) \<or> (192 \<le> n \<and> n \<le> 222 \<and> n \<noteq> 215) then char_of (n + 32) else c)"

definition toLowerCase :: "string \<Rightarrow> string" where
  "toLowerCase s = map lower_case s"

text \<open>\<^verbatim>\<open>s.includes(t)\<close>.\<close>

fun js_includes :: "string \<Rightarrow> string \<Rightarrow> bool" where
  "js_includes [] t = (t = [])"
| "js_includes (c # cs) t = (prefix t (c # cs) \<or> js_includes cs t)"

fun decimal :: "nat \<Rightarrow> string" where
  "decimal n = (if n < 10 then [char_of (48 + n)] else decimal (n div 10) @ [char_of (48 + n mod 10)])"

text \<open>
  The regular expressions of the controller are literals with their flags. What they match
  is left to the engine, a parameter of the model: \<open>exec\<close> gives the first match of an
  expression in a string, as the array of the match and its groups, \<open>exec_all\<close> gives every
  match of a global expression, and \<open>replace_all\<close> rewrites every match of a global expression.
\<close>

record regexp =
  source :: string
  flags :: string

record engine =
  exec :: "regexp \<Rightarrow> string \<Rightarrow> string list option"
  exec_all :: "regexp \<Rightarrow> string \<Rightarrow> string list list"
  replace_all :: "regexp \<Rightarrow> string \<Rightarrow> string \<Rightarrow> string"

definition global :: "regexp \<Rightarrow> bool" where
  "global re = (CHR ''g'' \<in> set (flags re))"

text \<open>An element of a match array; a group that took no part in the match is empty.\<close>

definition element :: "string list \<Rightarrow> nat \<Rightarrow> string" where
  "element m i = (if i < length m then m ! i else [])"

text \<open>
  \<^verbatim>\<open>String.prototype.match\<close>: with a global expression the array of all matched texts,
  otherwise the first match with its groups; \<^verbatim>\<open>null\<close> when nothing matches.
\<close>

definition match :: "engine \<Rightarrow> string \<Rightarrow> regexp \<Rightarrow> string list option" where
  "match eng str re =
     (if global re
      then (case exec_all eng re str of [] \<Rightarrow> None | ms \<Rightarrow> Some (map (\<lambda>m. element m 0) ms))
      else exec eng re str)"

text \<open>
  \<^verbatim>\<open>String.prototype.matchAll\<close> throws a TypeError when it is given a regular expression
  without the \<^verbatim>\<open>g\<close> flag.
\<close>

definition matchAll :: "engine \<Rightarrow> string \<Rightarrow> regexp \<Rightarrow> js_error + string list list" where
  "matchAll eng str re =
     (if global re then Inr (exec_all eng re str)
      else Inl (TypeError ''String.prototype.matchAll called with a non-global RegExp argument''))"

text \<open>\<^verbatim>\<open>RegExp.prototype.test\<close> on an expression that has not been used before.\<close>

definition test :: "engine \<Rightarrow> regexp \<Rightarrow> string \<Rightarrow> bool" where
  "test eng re str = (exec eng re str \<noteq> None)"

subsection \<open>parseGrammarCorrections\<close>

definition correctedPatterns :: "regexp list" where
  \<open>correctedPatterns =
     [\<lparr>source = ''(?:corrected version|corrected text|correction):'' @ [CHR 0x5C] @ ''s*["']([^"']+)["']'', flags = ''i''\<rparr>,
      \<lparr>source = ''(?:corrected version|corrected text|should be):'' @ [CHR 0x5C] @ ''s*([^'' @ [CHR 0x5C] @ ''n.]+)'', flags = ''i''\<rparr>,
      \<lparr>source = ''(?:correct version|fixed version):'' @ [CHR 0x5C] @ ''s*["']([^"']+)["']'', flags = ''i''\<rparr>,
      \<lparr>source = ''here.{0,20}corrected:'' @ [CHR 0x5C] @ ''s*["']([^"']+)["']'', flags = ''i''\<rparr>]\<close>

definition errorPatterns :: "regexp list" where
  \<open>errorPatterns =
     [\<lparr>source = ''(?:errors?|mistakes?):'' @ [CHR 0x5C] @ ''s*(.*?)(?:'' @ [CHR 0x5C] @ ''n'' @ [CHR 0x5C] @ ''n|$)'', flags = ''is''\<rparr>,
      \<lparr>source = ''(?:problems?|issues?):'' @ [CHR 0x5C] @ ''s*(.*?)(?:'' @ [CHR 0x5C] @ ''n'' @ [CHR 0x5C] @ ''n|$)'', flags = ''is''\<rparr>,
      \<lparr>source = [CHR 0x5C] @ ''d+'' @ [CHR 0x5C] @ ''.'' @ [CHR 0x5C] @ ''s+([^'' @ [CHR 0x5C] @ ''n]+(?:error|mistake|wrong|incorrect)[^'' @ [CHR 0x5C] @ ''n]*)'', flags = ''gi''\<rparr>,
      \<lparr>source = ''([^'' @ [CHR 0x5C] @ ''n]*(?:should be|change to|replace with)[^'' @ [CHR 0x5C] @ ''n]*)'', flags = ''gi''\<rparr>]\<close>

definition suggestionPatterns :: "regexp list" where
  \<open>suggestionPatterns =
     [\<lparr>source = ''should be:'' @ [CHR 0x5C] @ ''s*["']([^"']+)["']'', flags = ''i''\<rparr>,
      \<lparr>source = ''change to:'' @ [CHR 0x5C] @ ''s*["']([^"']+)["']'', flags = ''i''\<rparr>,
      \<lparr>source = ''correct:'' @ [CHR 0x5C] @ ''s*["']([^"']+)["']'', flags = ''i''\<rparr>]\<close>

definition simpleCorrections :: "(regexp \<times> string) list" where
  \<open>simpleCorrections =
     [(\<lparr>source = [CHR 0x5C] @ ''bI am learn'' @ [CHR 0x5C] @ ''b'', flags = ''gi''\<rparr>, ''I am learning''),
      (\<lparr>source = [CHR 0x5C] @ ''bI want practice'' @ [CHR 0x5C] @ ''b'', flags = ''gi''\<rparr>, ''I want to practice''),
      (\<lparr>source = [CHR 0x5C] @ ''bhats'' @ [CHR 0x5C] @ ''b'', flags = ''gi''\<rparr>, ''hats'')]\<close>

text \<open>The explanations, in French; an accented letter is its code unit.\<close>

definition fr_correct :: string where
  \<open>fr_correct =
     ''Votre texte semble correct !''\<close>

definition fr_suggested :: string where
  \<open>fr_suggested =
     '' correction(s) sugg'' @ [CHR 0xE9] @ ''r'' @ [CHR 0xE9] @ ''e(s) pour am'' @ [CHR 0xE9] @ ''liorer votre texte.''\<close>

definition fr_improved :: string where
  \<open>fr_improved =
     ''Quelques am'' @ [CHR 0xE9] @ ''liorations ont '' @ [CHR 0xE9] @ ''t'' @ [CHR 0xE9] @ '' apport'' @ [CHR 0xE9] @ ''es '' @ [CHR 0xE0] @ '' votre texte.''\<close>

definition fr_undetailed :: string where
  \<open>fr_undetailed =
     ''L'IA a d'' @ [CHR 0xE9] @ ''tect'' @ [CHR 0xE9] @ '' le besoin d'am'' @ [CHR 0xE9] @ ''liorations mais les d'' @ [CHR 0xE9] @ ''tails n'ont pas pu '' @ [CHR 0xEA] @ ''tre extraits automatiquement.''\<close>

definition fr_unavailable :: string where
  \<open>fr_unavailable =
     ''Analyse des corrections indisponible.''\<close>

record corrections =
  hasErrors :: bool
  correctedText :: string
  errors :: "string list"
  explanation :: string

text \<open>The loop that takes the first pattern with a non-empty first group.\<close>

fun first_group :: "engine \<Rightarrow> string \<Rightarrow> regexp list \<Rightarrow> string option" where
  "first_group eng str [] = None"
| "first_group eng str (pattern # rest) =
     (case match eng str pattern of
        None \<Rightarrow> first_group eng str rest
      | Some m \<Rightarrow> if element m 1 \<noteq> [] then Some (trim (element m 1)) else first_group eng str rest)"

text \<open>The loops over the error patterns and over the matches of each.\<close>

fun push_matches :: "string list list \<Rightarrow> string list \<Rightarrow> string list" where
  "push_matches [] errors' = errors'"
| "push_matches (m # matches) errors' =
     (if element m 1 \<noteq> []
      then (let errorText = trim (element m 1)
            in if 10 < length errorText \<and> length errorText < 200
               then push_matches matches (errors' @ [errorText])
               else push_matches matches errors')
      else push_matches matches errors')"

fun extract_errors :: "engine \<Rightarrow> string \<Rightarrow> regexp list \<Rightarrow> string list \<Rightarrow> js_error + string list" where
  "extract_errors eng aiResponse [] errors' = Inr errors'"
| "extract_errors eng aiResponse (pattern # rest) errors' =
     (case matchAll eng aiResponse pattern of
        Inl error \<Rightarrow> Inl error
      | Inr matches \<Rightarrow> extract_errors eng aiResponse rest (push_matches matches errors'))"

text \<open>The loop over the simple corrections, on the corrected text and the errors.\<close>

fun apply_simpleCorrections ::
  "engine \<Rightarrow> string \<Rightarrow> (regexp \<times> string) list \<Rightarrow> string \<times> string list \<Rightarrow> string \<times> string list" where
  "apply_simpleCorrections eng originalText [] acc = acc"
| "apply_simpleCorrections eng originalText ((from', to') # rest) (correctedText', errors') =
     (if test eng from' originalText
      then apply_simpleCorrections eng originalText rest
             (replace_all eng from' originalText to',
              errors' @ [[CHR 0x22]
                          @ (case match eng originalText from' of
                               None \<Rightarrow> ''undefined''
                             | Some m \<Rightarrow> element m 0)
                          @ [CHR 0x22] @ '' should be '' @ [CHR 0x22] @ to' @ [CHR 0x22]])
      else apply_simpleCorrections eng originalText rest (correctedText', errors'))"

definition has_corrections :: "string \<Rightarrow> bool" where
  "has_corrections aiResponse =
     (let response = toLowerCase aiResponse
      in js_includes response ''corrected''
         \<or> js_includes response ''error''
         \<or> js_includes response ''mistake''
         \<or> js_includes response ''should be''
         \<or> js_includes response ''change''
         \<or> js_includes response ''fix'')"

text \<open>The body of the \<^verbatim>\<open>try\<close> block.\<close>

definition try_parseGrammarCorrections :: "engine \<Rightarrow> string \<Rightarrow> string \<Rightarrow> js_error + corrections" where
  "try_parseGrammarCorrections eng aiResponse originalText =
     (let hasCorrections = has_corrections aiResponse
      in if hasCorrections
         then
           (let correctedText1 =
                  (case first_group eng aiResponse correctedPatterns of
                     None \<Rightarrow> originalText
                   | Some t \<Rightarrow> t)
            in case extract_errors eng aiResponse errorPatterns [] of
                 Inl error \<Rightarrow> Inl error
               | Inr errors2 \<Rightarrow>
                   (let correctedText3 =
                          (if correctedText1 = originalText \<and> 0 < length errors2
                           then (case first_group eng aiResponse suggestionPatterns of
                                   None \<Rightarrow> correctedText1
                                 | Some t \<Rightarrow> t)
                           else correctedText1);
                        (correctedText4, errors4) =
                          (if correctedText3 = originalText
                           then apply_simpleCorrections eng originalText simpleCorrections
                                  (correctedText3, errors2)
                           else (correctedText3, errors2));
                        explanation5 =
                          (if 0 < length errors4 then decimal (length errors4) @ fr_suggested
                           else if correctedText4 \<noteq> originalText then fr_improved
                           else fr_undetailed)
                    in Inr \<lparr>hasErrors = hasCorrections, correctedText = correctedText4,
                            errors = take 3 errors4, explanation = explanation5\<rparr>))
         else Inr \<lparr>hasErrors = hasCorrections, correctedText = originalText, errors = [],
                   explanation = fr_correct\<rparr>)"

definition parseGrammarCorrections :: "engine \<Rightarrow> string \<Rightarrow> string \<Rightarrow> corrections" where
  "parseGrammarCorrections eng aiResponse originalText =
     (case try_parseGrammarCorrections eng aiResponse originalText of
        Inr result \<Rightarrow> result
      | Inl error \<Rightarrow>
          \<lparr>hasErrors = False, correctedText = originalText, errors = [],
           explanation = fr_unavailable\<rparr>)"

section \<open>The notions of the specification\<close>

text \<open>
  The error categories of the specification, as the errors the code throws for them; the last
  \<open>n\<close> elements of a sequence and a line of the transcript, as the specification words them;
  and the conditions under which a placeholder stands for itself as a regular expression
  and a replacement text stands for itself.
\<close>

definition TemplateNotFound :: "string \<Rightarrow> js_error" where
  "TemplateNotFound templateId = Error (''Template not found: '' @ templateId)"

definition UnsupportedProvider :: "AIProvider \<Rightarrow> js_error" where
  "UnsupportedProvider p = HttpException (''Unsupported AI provider: '' @ provider_id p) 400"

definition last_messages :: "nat \<Rightarrow> 'a list \<Rightarrow> 'a list" where
  "last_messages n xs = rev (take n (rev xs))"

definition transcript_line :: "AIMessage \<Rightarrow> string" where
  "transcript_line msg =
     (case role msg of user \<Rightarrow> ''Student: '' @ content msg | other \<Rightarrow> ''Tutor: '' @ content msg)"

definition modelled_name :: "string \<Rightarrow> bool" where
  "modelled_name variable = (list_all plain_character variable \<and> \<not> inherited_property variable)"

definition literal_name :: "string \<Rightarrow> bool" where
  "literal_name variable = (modelled_name variable \<and> \<not> decimal_number variable)"

definition dollar_free :: "string \<Rightarrow> bool" where
  "dollar_free s = (CHR ''$'' \<notin> set s)"

text \<open>The string a run of substitutions returns.\<close>

definition substituted :: "PromptContext \<Rightarrow> string list \<Rightarrow> string \<Rightarrow> string" where
  "substituted context vs s = (case substitute context vs s of Returns s' \<Rightarrow> s' | other \<Rightarrow> s)"



text \<open>
  The errors an operation may throw beside \<^verbatim>\<open>TemplateNotFound\<close>: the unsupported
  provider, the opaque error of the operation, or an \<^verbatim>\<open>HttpException\<close> that the adapter
  threw.
\<close>

definition passed_or_normalized :: "'r AIProviderService \<Rightarrow> AICompletionOptions option \<Rightarrow> string \<Rightarrow> js_error \<Rightarrow> bool" where
  "passed_or_normalized svc options opaque e =
     (e = UnsupportedProvider (selected_provider svc options)
      \<or> e = HttpException opaque 500
      \<or> (instanceof_HttpException e \<and> (\<exists>messages options'. openaiService svc messages options' = Inl e)))"

text \<open>Two adapters for concrete runs: one answers every call alike, one fails every call alike.\<close>

definition canned_adapter :: "'r \<Rightarrow> 'r adapter" where
  "canned_adapter reply messages options = Inr reply"

definition failing_adapter :: "js_error \<Rightarrow> 'r adapter" where
  "failing_adapter error messages options = Inl error"

text \<open>
  The cost as the specification words it: a token count is a natural number, a model has a
  price entry when the table has an entry under its name, and the cost is the sum of the
  two products, in the arithmetic of numbers, rounded to 6 decimal places.
\<close>

definition token_count :: "nat \<Rightarrow> number" where
  "token_count n = Finite (of_nat n)"

definition has_price_entry :: "string \<Rightarrow> bool" where
  "has_price_entry model' = (map_of pricing model' \<noteq> None)"

definition inputPrice :: "string \<Rightarrow> number option" where
  "inputPrice model' = (case map_of pricing model' of None \<Rightarrow> None | Some entry \<Rightarrow> input entry)"

definition outputPrice :: "string \<Rightarrow> number option" where
  "outputPrice model' = (case map_of pricing model' of None \<Rightarrow> None | Some entry \<Rightarrow> output entry)"

definition rounded :: "nat \<Rightarrow> number \<Rightarrow> number" where
  "rounded digits x = StringToNumber (toFixed x digits)"

definition cost :: "string \<Rightarrow> nat \<Rightarrow> nat \<Rightarrow> number" where
  "cost model' promptTokens completionTokens =
     rounded 6
       (add (multiply (per_million (token_count promptTokens)) (ToNumber (inputPrice model')))
            (multiply (per_million (token_count completionTokens)) (ToNumber (outputPrice model'))))"

section \<open>Scanning for placeholders\<close>

text \<open>
  A replacement text without a dollar sign is inserted as it is, and the scan does not
  depend on what precedes the subject. A placeholder has no overlap with itself or with
  another placeholder, so the scan distributes over any occurrence of one.
\<close>

lemma GetSubstitution_dollar_free:
  "CHR ''$'' \<notin> set v \<Longrightarrow> GetSubstitution m b a v = v"
  by (induction m b a v rule: GetSubstitution.induct) auto

lemma replace_scan_preceding:
  "CHR ''$'' \<notin> set v \<Longrightarrow> replace_scan p v pre s = replace_scan p v pre' s"
proof (induction p v pre s arbitrary: pre' rule: replace_scan.induct)
  case (1 p v preceding)
  then show ?case by (simp add: GetSubstitution_dollar_free)
next
  case (2 p v preceding c cs)
  show ?case
  proof (cases "p = []")
    case True
    with 2 show ?thesis
      by (simp add: GetSubstitution_dollar_free) 
  next
    case False
    show ?thesis
    proof (cases "prefix p (c # cs)")
      case True
      with False 2(2)[OF False True 2(4), of "rev p @ pre'"] 2(4) show ?thesis
        by (simp add: GetSubstitution_dollar_free)
    next
      case nope: False
      with False 2(3)[OF False nope 2(4), of "c # pre'"] 2(4) show ?thesis
        by simp
    qed
  qed
qed

lemma no_left_overlap:
  assumes m: "CHR ''{'' \<notin> set m" and u: "u \<noteq> []"
    and pre: "prefix (''{{'' @ m @ ''}}'') (u @ ''{{'' @ rest)"
  shows "prefix (''{{'' @ m @ ''}}'') u"
proof (rule ccontr)
  assume n: "\<not> prefix (''{{'' @ m @ ''}}'') u"
  from pre n obtain us where eq: "''{{'' @ m @ ''}}'' = u @ us" and us: "prefix us (''{{'' @ rest)"
    by (auto simp: prefix_append)
  from n eq have "us \<noteq> []" by auto
  with us obtain us' where us': "us = CHR ''{'' # us'" by (cases us) auto
  from u obtain c u' where cu: "u = c # u'" by (cases u) auto
  with eq us' have tail: "CHR ''{'' # m @ ''}}'' = u' @ CHR ''{'' # us'" by auto
  show False
  proof (cases u')
    case Nil
    with tail have "us' = m @ ''}}''" by simp
    with us us' have "prefix (CHR ''{'' # m @ ''}}'') (''{{'' @ rest)" by simp
    then have "prefix (m @ ''}}'') (CHR ''{'' # rest)" by simp
    with m show False by (cases m) auto
  next
    case (Cons d u'')
    with tail have "m @ ''}}'' = u'' @ CHR ''{'' # us'" by simp
    then have "CHR ''{'' \<in> set (m @ ''}}'')" by (metis in_set_conv_decomp)
    with m show False by simp
  qed
qed

lemma replace_scan_boundary:
  assumes p: "p \<noteq> []" and v: "CHR ''$'' \<notin> set v"
    and safe: "\<And>u1 u2. u = u1 @ u2 \<Longrightarrow> u2 \<noteq> [] \<Longrightarrow> prefix p (u2 @ q) \<Longrightarrow> prefix p u2"
  shows "replace_scan p v pre (u @ q) = replace_scan p v pre u @ replace_scan p v pre' q"
  using safe
proof (induction u arbitrary: pre rule: length_induct)
  case (1 u)
  show ?case
  proof (cases u)
    case Nil
    with p replace_scan_preceding[OF v, of p pre q pre'] show ?thesis by simp
  next
    case (Cons c cs)
    show ?thesis
    proof (cases "prefix p (u @ q)")
      case True
      with 1(2)[of "[]" u] Cons have pu: "prefix p u" by simp
      then obtain u3 where u3: "u = p @ u3" by (auto simp: prefix_def)
      have len: "length u3 < length u" using u3 p by (cases p) auto
      have "replace_scan p v (rev p @ pre) (u3 @ q)
            = replace_scan p v (rev p @ pre) u3 @ replace_scan p v pre' q"
      proof (rule 1(1)[rule_format, OF len])
        fix u1 u2 assume "u3 = u1 @ u2" "u2 \<noteq> []" "prefix p (u2 @ q)"
        with 1(2)[of "p @ u1" u2] u3 show "prefix p u2" by simp
      qed
      moreover have "drop (length p) (c # cs @ q) = u3 @ q" "drop (length p) (c # cs) = u3"
        using u3 Cons by (metis append_Cons append_eq_conv_conj append_assoc)+
      ultimately show ?thesis
        using True pu Cons p v by (simp add: GetSubstitution_dollar_free)
    next
      case False
      then have npu: "\<not> prefix p u" by (auto simp: prefix_def)
      have "replace_scan p v (c # pre) (cs @ q)
            = replace_scan p v (c # pre) cs @ replace_scan p v pre' q"
      proof (rule 1(1)[rule_format])
        show "length cs < length u" using Cons by simp
      next
        fix u1 u2 assume "cs = u1 @ u2" "u2 \<noteq> []" "prefix p (u2 @ q)"
        with 1(2)[of "c # u1" u2] Cons show "prefix p u2" by simp
      qed
      with False npu Cons p show ?thesis by simp
    qed
  qed
qed


lemma replace_scan_no_match:
  assumes p: "p \<noteq> []"
    and none: "\<And>z1 z2. z = z1 @ z2 \<Longrightarrow> z2 \<noteq> [] \<Longrightarrow> \<not> prefix p (z2 @ t)"
  shows "replace_scan p v pre (z @ t) = z @ replace_scan p v (rev z @ pre) t"
  using none
proof (induction z arbitrary: pre)
  case Nil
  then show ?case by simp
next
  case (Cons c cs)
  from Cons(2)[of "[]" "c # cs"] have "\<not> prefix p (c # cs @ t)" by simp
  moreover have "replace_scan p v (c # pre) (cs @ t) = cs @ replace_scan p v (rev cs @ c # pre) t"
  proof (rule Cons(1))
    fix z1 z2 assume "cs = z1 @ z2" "z2 \<noteq> []"
    with Cons(2)[of "c # z1" z2] show "\<not> prefix p (z2 @ t)" by simp
  qed
  ultimately show ?case using p by simp
qed

lemma takeWhile_until:
  "c \<notin> set n \<Longrightarrow> takeWhile (\<lambda>x. x \<noteq> c) (n @ c # r) = n"
  by (induction n) auto

lemma placeholder_not_prefix:
  assumes m: "CHR ''}'' \<notin> set m" and n: "CHR ''}'' \<notin> set n" and ne: "m \<noteq> n"
  shows "\<not> prefix (''{{'' @ m @ ''}}'') (''{{'' @ n @ ''}}'' @ t)"
proof
  assume "prefix (''{{'' @ m @ ''}}'') (''{{'' @ n @ ''}}'' @ t)"
  then have "prefix (m @ ''}}'') (n @ ''}}'' @ t)" by simp
  then obtain r where r: "n @ ''}}'' @ t = (m @ ''}}'') @ r" by (auto simp: prefix_def)
  have "takeWhile (\<lambda>c. c \<noteq> CHR ''}'') (n @ ''}}'' @ t) = n"
    using takeWhile_until[OF n] by simp
  moreover have "takeWhile (\<lambda>c. c \<noteq> CHR ''}'') ((m @ ''}}'') @ r) = m"
    using takeWhile_until[OF m] by simp
  ultimately show False using r ne by simp
qed

lemma placeholder_inside:
  assumes n: "CHR ''{'' \<notin> set n" and z: "''{{'' @ n @ ''}}'' = z1 @ z2" and z1: "z1 \<noteq> []" and z2: "z2 \<noteq> []"
  shows "\<not> prefix (''{{'' @ m @ ''}}'') (z2 @ t)"
proof
  assume pre: "prefix (''{{'' @ m @ ''}}'') (z2 @ t)"
  from z1 obtain c z1' where c: "z1 = c # z1'" by (cases z1) auto
  with z have tail: "CHR ''{'' # n @ ''}}'' = z1' @ z2" by auto
  from z2 pre obtain z2' where z2': "z2 = CHR ''{'' # z2'" by (cases z2) auto
  show False
  proof (cases z1')
    case Nil
    with tail z2' have "z2' = n @ ''}}''" by simp
    with pre z2' have "prefix (CHR ''{'' # m @ ''}}'') (n @ ''}}'' @ t)" by simp
    with n show False by (cases n) auto
  next
    case (Cons d z1'')
    with tail z2' have "n @ ''}}'' = z1'' @ CHR ''{'' # z2'" by simp
    then have "CHR ''{'' \<in> set (n @ ''}}'')" by (metis in_set_conv_decomp)
    with n show False by simp
  qed
qed

lemma replace_scan_before_braces:
  assumes m: "CHR ''{'' \<notin> set m" and v: "CHR ''$'' \<notin> set v"
  shows "replace_scan (''{{'' @ m @ ''}}'') v pre (u @ ''{{'' @ rest)
         = replace_scan (''{{'' @ m @ ''}}'') v pre u @ replace_scan (''{{'' @ m @ ''}}'') v pre' (''{{'' @ rest)"
proof (rule replace_scan_boundary)
  show "''{{'' @ m @ ''}}'' \<noteq> []" by simp
  show "CHR ''$'' \<notin> set v" by (rule v)
  fix u1 u2 assume "u = u1 @ u2" and u2: "u2 \<noteq> []" and pre: "prefix (''{{'' @ m @ ''}}'') (u2 @ ''{{'' @ rest)"
  show "prefix (''{{'' @ m @ ''}}'') u2" by (rule no_left_overlap[OF m u2 pre])
qed

lemma replace_scan_at_match:
  assumes p: "p \<noteq> []" and v: "CHR ''$'' \<notin> set v"
  shows "replace_scan p v pre (p @ t) = v @ replace_scan p v pre' t"
proof -
  from p obtain c cs where c: "p = c # cs" by (cases p) auto
  have "replace_scan p v pre (c # (cs @ t)) = v @ replace_scan p v (rev p @ pre) t"
    using c v by (simp add: GetSubstitution_dollar_free)
  then show ?thesis using c replace_scan_preceding[OF v, of p "rev p @ pre" t pre'] by simp
qed

lemma replace_scan_same_placeholder:
  assumes m: "CHR ''{'' \<notin> set m" and v: "CHR ''$'' \<notin> set v"
  shows "replace_scan (placeholder m) v pre (u @ placeholder m @ t)
         = replace_scan (placeholder m) v pre u @ v @ replace_scan (placeholder m) v pre' t"
proof -
  let ?p = "''{{'' @ m @ ''}}''"
  have "replace_scan ?p v pre (u @ ''{{'' @ (m @ ''}}'' @ t))
        = replace_scan ?p v pre u @ replace_scan ?p v [] (''{{'' @ (m @ ''}}'' @ t))"
    by (rule replace_scan_before_braces[OF m v])
  moreover have "replace_scan ?p v [] (?p @ t) = v @ replace_scan ?p v pre' t"
    by (rule replace_scan_at_match[OF _ v]) simp
  ultimately show ?thesis unfolding placeholder_def by (simp only: append_assoc)
qed

lemma replace_scan_other_placeholder:
  assumes m: "CHR ''{'' \<notin> set m" "CHR ''}'' \<notin> set m" and n: "CHR ''{'' \<notin> set n" "CHR ''}'' \<notin> set n"
    and ne: "m \<noteq> n" and v: "CHR ''$'' \<notin> set v"
  shows "replace_scan (placeholder m) v pre (u @ placeholder n @ t)
         = replace_scan (placeholder m) v pre u @ placeholder n @ replace_scan (placeholder m) v pre' t"
proof -
  let ?p = "''{{'' @ m @ ''}}''" and ?q = "''{{'' @ n @ ''}}''"
  have "replace_scan ?p v pre (u @ ''{{'' @ (n @ ''}}'' @ t))
        = replace_scan ?p v pre u @ replace_scan ?p v [] (''{{'' @ (n @ ''}}'' @ t))"
    by (rule replace_scan_before_braces[OF m(1) v])
  moreover have "replace_scan ?p v [] (?q @ t) = ?q @ replace_scan ?p v (rev ?q @ []) t"
  proof (rule replace_scan_no_match)
    show "?p \<noteq> []" by simp
    fix z1 z2 assume z: "?q = z1 @ z2" "z2 \<noteq> []"
    show "\<not> prefix ?p (z2 @ t)"
    proof (cases "z1 = []")
      case True
      with z(1) have "z2 = ?q" by simp
      with placeholder_not_prefix[OF m(2) n(2) ne, of t] show ?thesis by simp
    next
      case False
      show ?thesis by (rule placeholder_inside[OF n(1) z(1) False z(2)])
    qed
  qed
  moreover have "replace_scan ?p v (rev ?q @ []) t = replace_scan ?p v pre' t"
    by (rule replace_scan_preceding[OF v])
  ultimately show ?thesis unfolding placeholder_def by (simp only: append_assoc)
qed

section \<open>Rendering a template\<close>

text \<open>
  A placeholder whose name has no syntax character and no comma compiles, so rendering a
  registered template with such names returns.
\<close>

lemma RegExp_g_placeholder:
  "RegExp_g (placeholder v) =
     (if list_all plain_character v
      then Some (Literal_g (if decimal_number v then replicate (decimal_value v) CHR ''{'' @ ''}''
                            else placeholder v))
      else None)"
  by (simp add: RegExp_g_def placeholder_def Let_def)

lemma substitute_returns:
  "list_all modelled_name vs \<Longrightarrow> \<exists>s'. substitute context vs s = Returns s'"
  by (induction vs arbitrary: s) (auto simp: RegExp_g_placeholder modelled_name_def reads_inherited_def)

lemma renderTemplate_returns:
  "getTemplate templates i = Some t \<Longrightarrow> list_all modelled_name (variables t) \<Longrightarrow>
     \<exists>s. renderTemplate templates i context = Returns s"
  using substitute_returns by (simp add: renderTemplate_def)

text \<open>The value of a variable, by the name of the variable.\<close>

lemma variable_value_precedence:
  "variable_value context ''language'' = or_else (language context) ''English''"
  "variable_value context ''level'' = or_else (level context) ''intermediate''"
  "variable_value context ''userMessage'' = or_else (userMessage context) []"
  "variable_value context ''text'' = or_else (userMessage context) []"
  "variable_value context ''topics''
     = or_else (lookup_property (additionalContext context) ''topics'') ''general conversation''"
  "variable \<notin> set [''language'', ''level'', ''userMessage'', ''conversationHistory'', ''text'', ''topics'']
     \<Longrightarrow> variable_value context variable
           = or_else (lookup_property (additionalContext context) variable) []"
  by (simp_all add: variable_value_def)

lemma literal_name_braces:
  "literal_name m \<Longrightarrow> CHR ''{'' \<notin> set m \<and> CHR ''}'' \<notin> set m"
  by (auto simp: literal_name_def modelled_name_def list_all_iff plain_character_def
      syntax_character_def)

lemma RegExp_g_literal:
  "literal_name m \<Longrightarrow> RegExp_g (placeholder m) = Some (Literal_g (placeholder m))"
  by (simp add: RegExp_g_placeholder literal_name_def modelled_name_def)

lemma literal_modelled: "literal_name m \<Longrightarrow> modelled_name m"
  by (simp add: literal_name_def)

lemma literals_modelled: "list_all literal_name vs \<Longrightarrow> list_all modelled_name vs"
  by (induction vs) (simp_all add: literal_modelled)

lemma substitute_literal:
  "literal_name m \<Longrightarrow>
     substitute context (m # vs) s
       = substitute context vs (replace_scan (placeholder m) (variable_value context m) [] s)"
  by (simp add: RegExp_g_literal literal_name_def modelled_name_def reads_inherited_def)

lemma substitute_substituted:
  "list_all modelled_name vs \<Longrightarrow> substitute context vs s = Returns (substituted context vs s)"
  using substitute_returns[of vs "context" s] by (auto simp: substituted_def)

lemma substituted_literal:
  assumes "literal_name m" and "list_all modelled_name vs"
  shows "substituted context (m # vs) s
         = substituted context vs (replace_scan (placeholder m) (variable_value context m) [] s)"
proof -
  have "substitute context (m # vs) s = Returns (substituted context (m # vs) s)"
    using assms by (intro substitute_substituted) (simp add: literal_modelled)
  moreover have "substitute context (m # vs) s
      = Returns (substituted context vs (replace_scan (placeholder m) (variable_value context m) [] s))"
    using substitute_substituted[OF assms(2)] by (simp only: substitute_literal[OF assms(1)])
  ultimately show ?thesis by simp
qed

lemma substituted_single:
  "literal_name m \<Longrightarrow>
     substituted context [m] s = replace_scan (placeholder m) (variable_value context m) [] s"
  by (simp add: substituted_def RegExp_g_literal literal_name_def modelled_name_def
      reads_inherited_def)

lemma substitute_append:
  "substitute context (vs @ ws) s
     = (case substitute context vs s of Returns s' \<Rightarrow> substitute context ws s' | other \<Rightarrow> other)"
  by (induction vs arbitrary: s) (auto split: option.splits)

lemma substitute_keeps_placeholder:
  assumes "literal_name v"
  shows "list_all literal_name mid \<Longrightarrow> v \<notin> set mid \<Longrightarrow>
     list_all (\<lambda>m. dollar_free (variable_value context m)) mid \<Longrightarrow>
     substitute context mid (u @ placeholder v @ t)
       = Returns (substituted context mid u @ placeholder v @ substituted context mid t)"
proof (induction mid arbitrary: u t)
  case Nil
  then show ?case by (simp add: substituted_def)
next
  case (Cons m mid)
  from Cons.prems have m: "literal_name m" and ne: "m \<noteq> v"
    and d: "CHR ''$'' \<notin> set (variable_value context m)"
    by (auto simp: dollar_free_def)
  have skip: "replace_scan (placeholder m) (variable_value context m) [] (u @ placeholder v @ t)
      = replace_scan (placeholder m) (variable_value context m) [] u @ placeholder v
          @ replace_scan (placeholder m) (variable_value context m) [] t"
    using literal_name_braces[OF m] literal_name_braces[OF assms] ne d
    by (intro replace_scan_other_placeholder) auto
  have mid: "list_all modelled_name mid"
    using Cons.prems by (simp add: literals_modelled)
  have "substitute context mid
          (replace_scan (placeholder m) (variable_value context m) [] u @ placeholder v
             @ replace_scan (placeholder m) (variable_value context m) [] t)
        = Returns (substituted context mid (replace_scan (placeholder m) (variable_value context m) [] u)
                   @ placeholder v
                   @ substituted context mid (replace_scan (placeholder m) (variable_value context m) [] t))"
    using Cons.prems by (intro Cons.IH) simp_all
  then show ?case
    by (simp only: substitute_literal[OF m] substituted_literal[OF m mid] skip)
qed

lemma substitute_replaces_placeholder:
  assumes "literal_name v" and "dollar_free (variable_value context v)"
  shows "substitute context [v] (u @ placeholder v @ t)
         = Returns (substituted context [v] u @ variable_value context v @ substituted context [v] t)"
proof -
  have "replace_scan (placeholder v) (variable_value context v) [] (u @ placeholder v @ t)
        = replace_scan (placeholder v) (variable_value context v) [] u @ variable_value context v
            @ replace_scan (placeholder v) (variable_value context v) [] t"
    using literal_name_braces[OF assms(1)] assms(2)
    by (intro replace_scan_same_placeholder) (auto simp: dollar_free_def)
  then show ?thesis
    by (simp only: substitute_literal[OF assms(1)] substituted_single[OF assms(1)] substitute.simps(1))
qed

text \<open>
  Claim C1, on the code. The replacement text is not inserted as it is: rendering
  \<^verbatim>\<open>style_improvement\<close> for the user message \<^verbatim>\<open>I paid $$5 for it.\<close> puts
  \<^verbatim>\<open>I paid $5 for it.\<close> in the place of \<^verbatim>\<open>{{text}}\<close>, and for the user message \<^verbatim>\<open>$&\<close>
  it leaves \<^verbatim>\<open>{{text}}\<close> where it is. And the placeholder is not matched as it is: in a
  registered template that declares the variable \<^verbatim>\<open>1\<close>, the occurrence of \<^verbatim>\<open>{{1}}\<close> in
  the body is not replaced, though the context gives the variable a value.
\<close>

theorem renderTemplate_dollar_and_digits:
  \<open>renderTemplate (initializeDefaultTemplates []) ''style_improvement''
     \<lparr>userId = None, conversationId = None, language = None, level = None,
      userMessage = Some ''I paid $$5 for it.'', conversationHistory = None,
      additionalContext = None\<rparr>
   = Returns (join newline
        [''Analyze and improve the writing style of this English text:'',
         '''',
         ''Text: "I paid $5 for it."'',
         '''',
         ''Please provide:'',
         ''1. **Style Assessment**: Evaluate formality, clarity, and flow'',
         ''2. **Improved Version**: Rewrite with better style'',
         ''3. **Specific Changes**: Explain each improvement made'',
         ''4. **Style Tips**: General advice for better writing'',
         '''',
         ''Consider the intermediate level of the learner and provide appropriate suggestions.''])
   \<and> renderTemplate (initializeDefaultTemplates []) ''style_improvement''
       \<lparr>userId = None, conversationId = None, language = None, level = None,
        userMessage = Some ''$&'', conversationHistory = None, additionalContext = None\<rparr>
     = Returns (join newline
          [''Analyze and improve the writing style of this English text:'',
           '''',
           ''Text: "{{text}}"'',
           '''',
           ''Please provide:'',
           ''1. **Style Assessment**: Evaluate formality, clarity, and flow'',
           ''2. **Improved Version**: Rewrite with better style'',
           ''3. **Specific Changes**: Explain each improvement made'',
           ''4. **Style Tips**: General advice for better writing'',
           '''',
           ''Consider the intermediate level of the learner and provide appropriate suggestions.''])
   \<and> renderTemplate
       (addTemplate
          \<lparr>id' = ''welcome'', name = ''Welcome'', description = ''Greets a learner'',
           template = ''Hello {{1}}, welcome!'', variables = [''1''], category = system',
           template_language = None, template_level = None\<rparr>
          (initializeDefaultTemplates []))
       ''welcome''
       \<lparr>userId = None, conversationId = None, language = None, level = None,
        userMessage = None, conversationHistory = None,
        additionalContext = Some [(''1'', ''Ada'')]\<rparr>
     = Returns ''Hello {{1}}, welcome!''\<close>
  by code_simp

section \<open>Substitution is sequential\<close>

text \<open>
  The variables are substituted one at a time, in the order of the array, each over the
  string the ones before it left. Let the names be free of syntax characters, not decimal
  numbers and not names that every object inherits, and the values free of dollar signs.
  When the turn of a variable \<open>a\<close> comes and its value contains the placeholder of
  another variable \<open>v\<close>, then, if \<open>v\<close> is processed later, after any variables \<open>mid\<close>
  in between, that occurrence is replaced by the value of \<open>v\<close>; and as long as \<open>v\<close> is
  not among the variables that follow, the placeholder stays in the string as it is.
\<close>

lemma sequential_substitution:
  assumes "literal_name a" and "literal_name v" and "list_all literal_name mid"
    and "v \<notin> set mid" and "v \<noteq> a"
    and "dollar_free (variable_value context a)" and "dollar_free (variable_value context v)"
    and "list_all (\<lambda>m. dollar_free (variable_value context m)) mid"
    and "variable_value context a = x @ placeholder v @ y"
  shows "substitute context (a # mid @ [v]) (l @ placeholder a @ r)
           = Returns (substituted context [v] (substituted context mid (substituted context [a] l @ x))
                      @ variable_value context v
                      @ substituted context [v] (substituted context mid (y @ substituted context [a] r)))
         \<and> substitute context (a # mid) (l @ placeholder a @ r)
           = Returns (substituted context mid (substituted context [a] l @ x)
                      @ placeholder v
                      @ substituted context mid (y @ substituted context [a] r))
         \<and> substitute context (vs @ ws) s
           = (case substitute context vs s of Returns s' \<Rightarrow> substitute context ws s' | other \<Rightarrow> other)"
proof -
  let ?ra = "replace_scan (placeholder a) (variable_value context a) []"
  have "?ra (l @ placeholder a @ r) = ?ra l @ variable_value context a @ ?ra r"
    using literal_name_braces[OF assms(1)] assms(6)
    by (intro replace_scan_same_placeholder) (auto simp: dollar_free_def)
  then have first: "?ra (l @ placeholder a @ r) = (?ra l @ x) @ placeholder v @ (y @ ?ra r)"
    using assms(9) by simp
  have kept: "substitute context (a # mid) (l @ placeholder a @ r)
           = Returns (substituted context mid (substituted context [a] l @ x)
                      @ placeholder v
                      @ substituted context mid (y @ substituted context [a] r))"
    using substitute_keeps_placeholder[OF assms(2,3,4,8), of "?ra l @ x" "y @ ?ra r"]
    by (simp only: substitute_literal[OF assms(1)] first substituted_single[OF assms(1)])
  have "substitute context ((a # mid) @ [v]) (l @ placeholder a @ r)
           = Returns (substituted context [v] (substituted context mid (substituted context [a] l @ x))
                      @ variable_value context v
                      @ substituted context [v] (substituted context mid (y @ substituted context [a] r)))"
    by (simp only: substitute_append kept outcome.case substitute_replaces_placeholder[OF assms(2,7)])
  then show ?thesis
    using kept substitute_append by simp
qed

lemma sequential_substitution_example:
  "substitute
     \<lparr>userId = None, conversationId = None, language = None, level = None,
      userMessage = Some ''Hello'',
      conversationHistory = Some [\<lparr>role = user, content = ''{{userMessage}}'', timestamp = None\<rparr>],
      additionalContext = None\<rparr>
     [''conversationHistory'', ''level'', ''userMessage'']
     ''{{conversationHistory}} ({{level}}) {{userMessage}}''
     = Returns ''Student: Hello (intermediate) Hello''
   \<and> substitute
     \<lparr>userId = None, conversationId = None, language = None, level = None,
      userMessage = Some ''Hello'',
      conversationHistory = Some [\<lparr>role = user, content = ''{{userMessage}}'', timestamp = None\<rparr>],
      additionalContext = None\<rparr>
     [''conversationHistory'', ''level'']
     ''{{conversationHistory}} ({{level}}) {{userMessage}}''
     = Returns ''Student: {{userMessage}} (intermediate) {{userMessage}}''"
proof -
  let ?c = "\<lparr>userId = None, conversationId = None, language = None, level = None,
      userMessage = Some ''Hello'',
      conversationHistory = Some [\<lparr>role = user, content = ''{{userMessage}}'', timestamp = None\<rparr>],
      additionalContext = None\<rparr>"
  have names: "literal_name ''conversationHistory''" "literal_name ''userMessage''"
    "list_all literal_name [''level'']"
    by (simp_all add: literal_name_def modelled_name_def inherited_property_def
        plain_character_def syntax_character_def decimal_number_def decimal_digit_def)
  have vals: "variable_value ?c ''conversationHistory'' = ''Student: '' @ placeholder ''userMessage'' @ ''''"
    "variable_value ?c ''userMessage'' = ''Hello''" "variable_value ?c ''level'' = ''intermediate''"
    by (simp_all add: variable_value_def formatConversationHistory_def slice_def placeholder_def
        or_else_def)
  have free: "dollar_free (variable_value ?c ''conversationHistory'')"
    "dollar_free (variable_value ?c ''userMessage'')"
    "list_all (\<lambda>m. dollar_free (variable_value ?c m)) [''level'']"
    by (simp_all add: vals dollar_free_def placeholder_def)
  have other: "''userMessage'' \<notin> set [''level'']" "''userMessage'' \<noteq> ''conversationHistory''"
    by simp_all
  note inst = sequential_substitution[OF names(1,2,3) other free vals(1),
      of "''''" "'' ({{level}}) {{userMessage}}''"]
  have e1: "substituted ?c [''userMessage''] ''Student: '' = ''Student: ''"
    by code_simp
  have e2: "substituted ?c [''userMessage''] '' (intermediate) {{userMessage}}''
            = '' (intermediate) Hello''"
    by code_simp
  have e3: "substituted ?c [''level''] (substituted ?c [''conversationHistory''] '''' @ ''Student: '')
            = ''Student: ''"
    by code_simp
  have e4: "substituted ?c [''level'']
              ('''' @ substituted ?c [''conversationHistory''] '' ({{level}}) {{userMessage}}'')
            = '' (intermediate) {{userMessage}}''"
    by code_simp
  show ?thesis
    using inst[THEN conjunct1] inst[THEN conjunct2, THEN conjunct1]
    unfolding e3 e4 e1 e2 vals(2) by (simp add: placeholder_def)
qed

text \<open>
  Claim C10, on the code. \<^verbatim>\<open>style_improvement\<close> declares \<^verbatim>\<open>language\<close>, \<^verbatim>\<open>text\<close>,
  \<^verbatim>\<open>level\<close>, in this order, and the contexts are those that \<^verbatim>\<open>analyzeText\<close> builds.
  For the text \<^verbatim>\<open>my {{level}} text\<close> the value substituted for \<^verbatim>\<open>text\<close> brings in the
  placeholder of \<^verbatim>\<open>level\<close>, which is processed later. With the level \<^verbatim>\<open>advanced\<close> that
  occurrence is replaced by the value of \<^verbatim>\<open>level\<close>; with the level \<^verbatim>\<open>$&\<close> it is not: the
  value is read as a replacement pattern, and the placeholder stays where the value
  \<^verbatim>\<open>$&\<close> should be.
\<close>

theorem later_placeholder_dollar_value:
  \<open>renderTemplate (initializeDefaultTemplates []) ''style_improvement''
     \<lparr>userId = None, conversationId = None, language = Some ''English'',
      level = Some ''advanced'', userMessage = Some ''my {{level}} text'',
      conversationHistory = None,
      additionalContext = Some [(''text'', ''my {{level}} text''), (''level'', ''advanced'')]\<rparr>
   = Returns (join newline
        [''Analyze and improve the writing style of this English text:'',
         '''',
         ''Text: "my advanced text"'',
         '''',
         ''Please provide:'',
         ''1. **Style Assessment**: Evaluate formality, clarity, and flow'',
         ''2. **Improved Version**: Rewrite with better style'',
         ''3. **Specific Changes**: Explain each improvement made'',
         ''4. **Style Tips**: General advice for better writing'',
         '''',
         ''Consider the advanced level of the learner and provide appropriate suggestions.''])
   \<and> renderTemplate (initializeDefaultTemplates []) ''style_improvement''
     \<lparr>userId = None, conversationId = None, language = Some ''English'',
      level = Some ''$&'', userMessage = Some ''my {{level}} text'',
      conversationHistory = None,
      additionalContext = Some [(''text'', ''my {{level}} text''), (''level'', ''$&'')]\<rparr>
   = Returns (join newline
        [''Analyze and improve the writing style of this English text:'',
         '''',
         ''Text: "my {{level}} text"'',
         '''',
         ''Please provide:'',
         ''1. **Style Assessment**: Evaluate formality, clarity, and flow'',
         ''2. **Improved Version**: Rewrite with better style'',
         ''3. **Specific Changes**: Explain each improvement made'',
         ''4. **Style Tips**: General advice for better writing'',
         '''',
         ''Consider the {{level}} level of the learner and provide appropriate suggestions.''])\<close>
  by code_simp

section \<open>The transcript of the conversation history\<close>

lemma slice_last_messages: "0 < n \<Longrightarrow> slice (- int n) xs = last_messages n xs"
proof -
  assume n: "0 < n"
  have "rev (take n (rev xs)) = drop (length xs - n) xs"
    by (simp add: take_rev)
  moreover have "nat (max (int (length xs) - int n) 0) = length xs - n" by simp
  ultimately show ?thesis using n by (simp add: slice_def last_messages_def Let_def)
qed

lemma transcript_line_eq:
  "(\<lambda>msg. (if role msg = user then ''Student'' else ''Tutor'') @ '': '' @ content msg) = transcript_line"
proof
  fix msg show "(if role msg = user then ''Student'' else ''Tutor'') @ '': '' @ content msg = transcript_line msg"
    by (cases "role msg") (simp_all add: transcript_line_def)
qed

text \<open>
  Claim C2. The variable \<^verbatim>\<open>conversationHistory\<close> stands for the sentence
  \<^verbatim>\<open>No previous conversation.\<close> when the context has no history or an empty one. For a
  non-empty history it stands for the lines of the last five messages, in their order,
  joined by newlines: \<^verbatim>\<open>Student: <content>\<close> for a message of the user and
  \<^verbatim>\<open>Tutor: <content>\<close> for any other role; a history of \<open>k\<close> messages contributes
  \<open>min 5 k\<close> of them.
\<close>

theorem conversationHistory_transcript:
  "(conversationHistory context = None \<or> conversationHistory context = Some [] \<longrightarrow>
      variable_value context ''conversationHistory'' = ''No previous conversation.'')
   \<and> (\<forall>h. conversationHistory context = Some h \<and> h \<noteq> [] \<longrightarrow>
          variable_value context ''conversationHistory''
            = join newline (map transcript_line (last_messages 5 h))
          \<and> length (last_messages 5 h) = min 5 (length h))"
proof -
  have five: "slice (- 5) h = last_messages 5 h" for h :: "AIMessage list"
    using slice_last_messages[of 5 h] by simp
  show ?thesis
    using transcript_line_eq
    by (auto simp: variable_value_def formatConversationHistory_def five last_messages_def)
qed

theorem conversationHistory_transcript_witness:
  "variable_value
      \<lparr>userId = None, conversationId = None, language = None, level = None,
       userMessage = None, conversationHistory = None, additionalContext = None\<rparr>
      ''conversationHistory'' = ''No previous conversation.''
   \<and> variable_value
        \<lparr>userId = None, conversationId = None, language = None, level = None,
         userMessage = None,
         conversationHistory = Some
           [\<lparr>role = user, content = ''one'', timestamp = None\<rparr>,
            \<lparr>role = assistant, content = ''two'', timestamp = None\<rparr>,
            \<lparr>role = user, content = ''three'', timestamp = None\<rparr>,
            \<lparr>role = assistant, content = ''four'', timestamp = None\<rparr>,
            \<lparr>role = system, content = ''five'', timestamp = None\<rparr>,
            \<lparr>role = user, content = ''six'', timestamp = None\<rparr>,
            \<lparr>role = assistant, content = ''seven'', timestamp = None\<rparr>],
         additionalContext = None\<rparr>
        ''conversationHistory''
      = ''Student: three'' @ newline @ ''Tutor: four'' @ newline @ ''Tutor: five'' @ newline
          @ ''Student: six'' @ newline @ ''Tutor: seven''"
  using conversationHistory_transcript
      [of "\<lparr>userId = None, conversationId = None, language = None, level = None,
            userMessage = None, conversationHistory = None, additionalContext = None\<rparr>"]
    conversationHistory_transcript
      [of "\<lparr>userId = None, conversationId = None, language = None, level = None,
            userMessage = None,
            conversationHistory = Some
              [\<lparr>role = user, content = ''one'', timestamp = None\<rparr>,
               \<lparr>role = assistant, content = ''two'', timestamp = None\<rparr>,
               \<lparr>role = user, content = ''three'', timestamp = None\<rparr>,
               \<lparr>role = assistant, content = ''four'', timestamp = None\<rparr>,
               \<lparr>role = system, content = ''five'', timestamp = None\<rparr>,
               \<lparr>role = user, content = ''six'', timestamp = None\<rparr>,
               \<lparr>role = assistant, content = ''seven'', timestamp = None\<rparr>],
            additionalContext = None\<rparr>"]
  by (simp add: last_messages_def transcript_line_def)

section \<open>Rendering an unknown template\<close>

lemma default_ids:
  "map fst (initializeDefaultTemplates []) =
     [''conversation_tutor'', ''conversation_friend'', ''grammar_correction'', ''style_improvement'',
      ''vocabulary_analysis'', ''conversation_starter'']"
  by (simp add: initializeDefaultTemplates_def defaultTemplates_def conversation_tutor_def
      conversation_friend_def grammar_correction_def style_improvement_def vocabulary_analysis_def
      conversation_starter_def)

lemma getTemplate_None: "getTemplate templates i = None \<longleftrightarrow> i \<notin> set (map fst templates)"
  by (simp add: getTemplate_def map_of_eq_None_iff)

text \<open>
  Claim C3. Whatever templates are registered, rendering an id that is not among them throws
  the error \<^verbatim>\<open>Template not found: <id>\<close>, for every context, and returns no string.
\<close>

theorem renderTemplate_unknown_id:
  "getTemplate templates templateId = None \<Longrightarrow>
     renderTemplate templates templateId context = Throws (TemplateNotFound templateId)
     \<and> (\<forall>rendered. renderTemplate templates templateId context \<noteq> Returns rendered)"
  by (simp add: renderTemplate_def TemplateNotFound_def)

theorem renderTemplate_unknown_id_witness:
  "getTemplate (initializeDefaultTemplates []) ''conversation_coach'' = None
   \<and> renderTemplate (initializeDefaultTemplates []) ''conversation_coach''
        \<lparr>userId = None, conversationId = None, language = Some ''French'', level = None,
         userMessage = Some ''Bonjour'', conversationHistory = None, additionalContext = None\<rparr>
       = Throws (Error ''Template not found: conversation_coach'')"
proof -
  have absent: "getTemplate (initializeDefaultTemplates []) ''conversation_coach'' = None"
    by (simp add: getTemplate_None default_ids)
  show ?thesis
    using absent renderTemplate_unknown_id[OF absent] by (simp add: TemplateNotFound_def)
qed

section \<open>The orchestrator\<close>

lemma selected_provider_temperature:
  "selected_provider svc (Some ((spread options)\<lparr>temperature := t\<rparr>)) = selected_provider svc options"
  by (auto simp: selected_provider_def spread_def split: option.splits)


lemma generateChatResponse_unsupported:
  "selected_provider svc options \<noteq> OPENAI \<Longrightarrow>
     generateChatResponse svc messages options
       = (Throws (UnsupportedProvider (selected_provider svc options)), [])"
  by (auto simp: generateChatResponse_def UnsupportedProvider_def catch_generateChatResponse_def
      BAD_REQUEST_def split: AIProvider.splits)

lemma generateChatResponse_adapter_error:
  "selected_provider svc options = OPENAI \<Longrightarrow> openaiService svc messages options = Inl error \<Longrightarrow>
     fst (generateChatResponse svc messages options)
       = Throws (if instanceof_HttpException error then error
                 else HttpException ''Failed to generate AI response'' 500)"
  by (simp add: generateChatResponse_def catch_generateChatResponse_def INTERNAL_SERVER_ERROR_def)

lemma generateChatResponse_throws:
  "fst (generateChatResponse svc messages options) = Throws e \<Longrightarrow>
     e = UnsupportedProvider (selected_provider svc options)
     \<or> e = HttpException ''Failed to generate AI response'' 500
     \<or> (openaiService svc messages options = Inl e \<and> instanceof_HttpException e)"
  by (auto simp: generateChatResponse_def catch_generateChatResponse_def UnsupportedProvider_def
      BAD_REQUEST_def INTERNAL_SERVER_ERROR_def split: AIProvider.splits sum.splits if_splits)

lemma generateChatResponse_modelled: "fst (generateChatResponse svc messages options) \<noteq> NotModelled"
  by (auto simp: generateChatResponse_def split: AIProvider.splits sum.splits)


lemma default_template_ids:
  "id' conversation_tutor = ''conversation_tutor''"
  "id' conversation_friend = ''conversation_friend''"
  "id' grammar_correction = ''grammar_correction''"
  "id' style_improvement = ''style_improvement''"
  "id' vocabulary_analysis = ''vocabulary_analysis''"
  "id' conversation_starter = ''conversation_starter''"
  by (simp_all add: conversation_tutor_def conversation_friend_def grammar_correction_def
      style_improvement_def vocabulary_analysis_def conversation_starter_def)

lemma default_template_variables:
  "variables conversation_tutor = [''language'', ''level'', ''conversationHistory'', ''userMessage'']"
  "variables conversation_friend = [''language'', ''level'', ''conversationHistory'', ''userMessage'']"
  "variables grammar_correction = [''language'', ''text'', ''level'']"
  "variables style_improvement = [''language'', ''text'', ''level'']"
  "variables vocabulary_analysis = [''language'', ''text'', ''level'']"
  "variables conversation_starter = [''level'', ''language'', ''topics'']"
  by (simp_all add: conversation_tutor_def conversation_friend_def grammar_correction_def
      style_improvement_def vocabulary_analysis_def conversation_starter_def)

lemma initial_templates:
  "initializeDefaultTemplates [] =
     [(''conversation_tutor'', conversation_tutor), (''conversation_friend'', conversation_friend),
      (''grammar_correction'', grammar_correction), (''style_improvement'', style_improvement),
      (''vocabulary_analysis'', vocabulary_analysis), (''conversation_starter'', conversation_starter)]"
  by (simp add: initializeDefaultTemplates_def defaultTemplates_def default_template_ids)

lemma default_variables_modelled:
  "list_all modelled_name [''language'', ''level'', ''conversationHistory'', ''userMessage'', ''text'', ''topics'']"
  by (simp add: modelled_name_def inherited_property_def plain_character_def
      syntax_character_def)

lemma default_variables_literal:
  "list_all literal_name [''language'', ''level'', ''conversationHistory'', ''userMessage'', ''text'', ''topics'']"
  using default_variables_modelled
  by (simp add: literal_name_def decimal_number_def decimal_digit_def)

lemma tutor_outcome:
  assumes "renderTemplate (promptTemplateService svc) ''conversation_tutor''
             \<lparr>userId = ctx_userId context, conversationId = ctx_conversationId context,
              language = Some (or_else (ctx_language context) ''English''),
              level = Some (or_else (ctx_level context) ''intermediate''),
              userMessage = Some userMessage', conversationHistory = Some history,
              additionalContext = None\<rparr> = Returns systemPrompt"
  shows "generateTutorResponse svc userMessage' history context options
         = generateChatResponse svc
             ([\<lparr>role = system, content = systemPrompt, timestamp = None\<rparr>]
                @ last_messages 10 history
                @ [\<lparr>role = user, content = userMessage', timestamp = None\<rparr>]) options"
  using assms slice_last_messages[of 10 history] by (simp add: generateTutorResponse_def)


lemma default_templates_registered:
  "getTemplate (initializeDefaultTemplates []) ''conversation_tutor'' = Some conversation_tutor"
  "getTemplate (initializeDefaultTemplates []) ''conversation_friend'' = Some conversation_friend"
  "getTemplate (initializeDefaultTemplates []) ''grammar_correction'' = Some grammar_correction"
  "getTemplate (initializeDefaultTemplates []) ''style_improvement'' = Some style_improvement"
  "getTemplate (initializeDefaultTemplates []) ''vocabulary_analysis'' = Some vocabulary_analysis"
  "getTemplate (initializeDefaultTemplates []) ''conversation_starter'' = Some conversation_starter"
  by (simp_all add: getTemplate_def initial_templates)

lemma default_templates_modelled:
  "list_all modelled_name (variables conversation_tutor)"
  "list_all modelled_name (variables conversation_friend)"
  "list_all modelled_name (variables grammar_correction)"
  "list_all modelled_name (variables style_improvement)"
  "list_all modelled_name (variables vocabulary_analysis)"
  "list_all modelled_name (variables conversation_starter)"
  using default_variables_modelled by (simp_all add: default_template_variables)


lemma partner_outcome:
  assumes "renderTemplate (promptTemplateService svc) ''conversation_friend''
             \<lparr>userId = ctx_userId context, conversationId = ctx_conversationId context,
              language = Some (or_else (ctx_language context) ''English''),
              level = Some (or_else (ctx_level context) ''intermediate''),
              userMessage = Some userMessage', conversationHistory = Some history,
              additionalContext = None\<rparr> = Returns systemPrompt"
  shows "generateConversationPartnerResponse svc userMessage' history context options
         = generateChatResponse svc
             ([\<lparr>role = system, content = systemPrompt, timestamp = None\<rparr>]
                @ last_messages 8 history
                @ [\<lparr>role = user, content = userMessage', timestamp = None\<rparr>])
             (Some ((spread options)\<lparr>temperature := Some (8 / 10)\<rparr>))"
  using assms slice_last_messages[of 8 history] by (simp add: generateConversationPartnerResponse_def)








lemma analyzeText_template:
  "(case analysisType of grammar \<Rightarrow> ''grammar_correction'' | style \<Rightarrow> ''style_improvement''
      | vocabulary \<Rightarrow> ''vocabulary_analysis'')
     \<in> set [''grammar_correction'', ''style_improvement'', ''vocabulary_analysis'']"
  by (cases analysisType) simp_all





lemma renderTemplate_throws:
  "renderTemplate templates i context = Throws e \<Longrightarrow> getTemplate templates i = None \<and> e = TemplateNotFound i"
proof -
  have "substitute context vs s \<noteq> Throws e" for vs s
    by (induction vs arbitrary: s) (auto split: option.splits)
  then show "renderTemplate templates i context = Throws e \<Longrightarrow> getTemplate templates i = None \<and> e = TemplateNotFound i"
    by (auto simp: renderTemplate_def TemplateNotFound_def split: option.splits)
qed

lemma renderTemplate_missing:
  "getTemplate templates i = None \<Longrightarrow> renderTemplate templates i context = Throws (TemplateNotFound i)"
  by (simp add: renderTemplate_def TemplateNotFound_def)

lemma tutor_missing:
  "getTemplate (promptTemplateService svc) ''conversation_tutor'' = None \<Longrightarrow>
     generateTutorResponse svc userMessage' history context options
       = (Throws (TemplateNotFound ''conversation_tutor''), [])"
  by (simp add: generateTutorResponse_def renderTemplate_missing)

lemma partner_missing:
  "getTemplate (promptTemplateService svc) ''conversation_friend'' = None \<Longrightarrow>
     generateConversationPartnerResponse svc userMessage' history context options
       = (Throws (TemplateNotFound ''conversation_friend''), [])"
  by (simp add: generateConversationPartnerResponse_def renderTemplate_missing)

lemma starters_missing:
  "getTemplate (promptTemplateService svc) ''conversation_starter'' = None \<Longrightarrow>
     generateConversationStarters svc context options
       = (Throws (TemplateNotFound ''conversation_starter''), [])"
  by (simp add: generateConversationStarters_def renderTemplate_missing)

lemma chat_throws:
  "fst (generateChatResponse svc messages options) = Throws e \<Longrightarrow>
     passed_or_normalized svc options ''Failed to generate AI response'' e"
  using generateChatResponse_throws[of svc messages options e]
  by (auto simp: passed_or_normalized_def)

lemma tutor_throws:
  "fst (generateTutorResponse svc userMessage' history context options) = Throws e \<Longrightarrow>
     e = TemplateNotFound ''conversation_tutor''
     \<or> passed_or_normalized svc options ''Failed to generate AI response'' e"
  by (auto simp: generateTutorResponse_def Let_def split: outcome.splits
      dest: renderTemplate_throws chat_throws)

lemma partner_throws:
  "fst (generateConversationPartnerResponse svc userMessage' history context options) = Throws e \<Longrightarrow>
     e = TemplateNotFound ''conversation_friend''
     \<or> passed_or_normalized svc options ''Failed to generate AI response'' e"
  by (auto simp: generateConversationPartnerResponse_def Let_def passed_or_normalized_def
      selected_provider_temperature split: outcome.splits
      dest!: renderTemplate_throws generateChatResponse_throws)

lemma starters_throws:
  "fst (generateConversationStarters svc context options) = Throws e \<Longrightarrow>
     e = TemplateNotFound ''conversation_starter''
     \<or> passed_or_normalized svc options ''Failed to generate AI response'' e"
  by (auto simp: generateConversationStarters_def Let_def passed_or_normalized_def
      selected_provider_temperature split: outcome.splits
      dest!: renderTemplate_throws generateChatResponse_throws)

lemma analyze_throws:
  "fst (analyzeText svc text analysisType context options) = Throws e \<Longrightarrow>
     passed_or_normalized svc options ''Failed to analyze text'' e"
  by (auto simp: analyzeText_def Let_def passed_or_normalized_def catch_analyzeText_def
      UnsupportedProvider_def BAD_REQUEST_def INTERNAL_SERVER_ERROR_def TemplateNotFound_def
      split: outcome.splits AIProvider.splits sum.splits if_splits
      dest!: renderTemplate_throws)

lemma tutor_unsupported:
  assumes "getTemplate (promptTemplateService svc) ''conversation_tutor'' = Some t"
    and "list_all modelled_name (variables t)"
    and "selected_provider svc options \<noteq> OPENAI"
  shows "generateTutorResponse svc userMessage' history context options
         = (Throws (UnsupportedProvider (selected_provider svc options)), [])"
proof -
  from renderTemplate_returns[OF assms(1,2)] obtain p where
    r: "renderTemplate (promptTemplateService svc) ''conversation_tutor''
             \<lparr>userId = ctx_userId context, conversationId = ctx_conversationId context,
              language = Some (or_else (ctx_language context) ''English''),
              level = Some (or_else (ctx_level context) ''intermediate''),
              userMessage = Some userMessage', conversationHistory = Some history,
              additionalContext = None\<rparr> = Returns p" by blast
  show ?thesis
    by (simp add: tutor_outcome[OF r] generateChatResponse_unsupported[OF assms(3)])
qed

lemma partner_unsupported:
  assumes "getTemplate (promptTemplateService svc) ''conversation_friend'' = Some t"
    and "list_all modelled_name (variables t)"
    and "selected_provider svc options \<noteq> OPENAI"
  shows "generateConversationPartnerResponse svc userMessage' history context options
         = (Throws (UnsupportedProvider (selected_provider svc options)), [])"
proof -
  from renderTemplate_returns[OF assms(1,2)] obtain p where
    r: "renderTemplate (promptTemplateService svc) ''conversation_friend''
             \<lparr>userId = ctx_userId context, conversationId = ctx_conversationId context,
              language = Some (or_else (ctx_language context) ''English''),
              level = Some (or_else (ctx_level context) ''intermediate''),
              userMessage = Some userMessage', conversationHistory = Some history,
              additionalContext = None\<rparr> = Returns p" by blast
  have "selected_provider svc (Some ((spread options)\<lparr>temperature := Some (8 / 10)\<rparr>)) \<noteq> OPENAI"
    using assms(3) by (simp add: selected_provider_temperature)
  from generateChatResponse_unsupported[OF this] show ?thesis
    by (simp add: partner_outcome[OF r] selected_provider_temperature)
qed

lemma starters_unsupported:
  assumes "getTemplate (promptTemplateService svc) ''conversation_starter'' = Some t"
    and "list_all modelled_name (variables t)"
    and "selected_provider svc options \<noteq> OPENAI"
  shows "generateConversationStarters svc context options
         = (Throws (UnsupportedProvider (selected_provider svc options)), [])"
proof -
  from renderTemplate_returns[OF assms(1,2)] obtain p where
    r: "renderTemplate (promptTemplateService svc) ''conversation_starter''
       \<lparr>userId = None, conversationId = None,
        language = Some (or_else (ctx_language context) ''English''),
        level = Some (or_else (ctx_level context) ''intermediate''),
        userMessage = None, conversationHistory = None,
        additionalContext =
          Some [(''topics'', or_else (ctx_topics context)
                   ''general conversation, daily life, hobbies, travel'')]\<rparr> = Returns p"
    by blast
  have "selected_provider svc (Some ((spread options)\<lparr>temperature := Some (8 / 10)\<rparr>)) \<noteq> OPENAI"
    using assms(3) by (simp add: selected_provider_temperature)
  from generateChatResponse_unsupported[OF this] show ?thesis
    using r by (simp add: generateConversationStarters_def selected_provider_temperature)
qed

lemma analyze_unsupported:
  assumes "\<forall>i \<in> set [''grammar_correction'', ''style_improvement'', ''vocabulary_analysis''].
             \<exists>t. getTemplate (promptTemplateService svc) i = Some t \<and> list_all modelled_name (variables t)"
    and "selected_provider svc options \<noteq> OPENAI"
  shows "analyzeText svc text analysisType context options
         = (Throws (UnsupportedProvider (selected_provider svc options)), [])"
proof -
  let ?i = "case analysisType of grammar \<Rightarrow> ''grammar_correction'' | style \<Rightarrow> ''style_improvement''
      | vocabulary \<Rightarrow> ''vocabulary_analysis''"
  from assms(1) analyzeText_template[of analysisType] obtain t where
    t: "getTemplate (promptTemplateService svc) ?i = Some t" "list_all modelled_name (variables t)"
    by blast
  from renderTemplate_returns[OF t] obtain p where
    "renderTemplate (promptTemplateService svc) ?i
       \<lparr>userId = None, conversationId = None,
        language = Some (or_else (ctx_language context) ''English''),
        level = Some (or_else (ctx_level context) ''intermediate''),
        userMessage = Some text, conversationHistory = None,
        additionalContext =
          Some [(''text'', text), (''level'', or_else (ctx_level context) ''intermediate'')]\<rparr> = Returns p"
    by blast
  then show ?thesis
    using assms(2)
    by (auto simp: analyzeText_def Let_def catch_analyzeText_def UnsupportedProvider_def
        BAD_REQUEST_def split: AIProvider.splits)
qed

text \<open>
  \<^verbatim>\<open>validateProviderConnection\<close> throws nothing: it returns \<^verbatim>\<open>false\<close> for a provider other
  than \<^verbatim>\<open>openai\<close> and when the adapter fails.
\<close>

lemma validate_unsupported:
  "(case provider' of None \<Rightarrow> defaultProvider svc | Some p \<Rightarrow> p) \<noteq> OPENAI \<Longrightarrow>
     validateProviderConnection svc provider' = (False, [])"
  by (auto simp: validateProviderConnection_def Let_def generateChatResponse_def selected_provider_def
      split: AIProvider.splits option.splits)

lemma validate_adapter_fails:
  "\<forall>messages options. \<exists>error. openaiService svc messages options = Inl error \<Longrightarrow>
     fst (validateProviderConnection svc provider') = False"
proof -
  assume f: "\<forall>messages options. \<exists>error. openaiService svc messages options = Inl error"
  have "\<forall>r. fst (generateChatResponse svc messages options) \<noteq> Returns r" for messages options
  proof -
    from f obtain error where "openaiService svc messages options = Inl error" by blast
    then show ?thesis
      by (auto simp: generateChatResponse_def split: AIProvider.splits)
  qed
  then show ?thesis
    by (auto simp: validateProviderConnection_def Let_def split: outcome.splits)
qed

lemma analyze_missing:
  "getTemplate (promptTemplateService svc)
     (case analysisType of grammar \<Rightarrow> ''grammar_correction'' | style \<Rightarrow> ''style_improvement''
      | vocabulary \<Rightarrow> ''vocabulary_analysis'') = None \<Longrightarrow>
     analyzeText svc text analysisType context options
       = (Throws (HttpException ''Failed to analyze text'' 500), [])"
  by (simp add: analyzeText_def Let_def renderTemplate_missing TemplateNotFound_def
      catch_analyzeText_def INTERNAL_SERVER_ERROR_def)

lemma tutor_adapter_error:
  assumes "getTemplate (promptTemplateService svc) ''conversation_tutor'' = Some t"
    and "list_all modelled_name (variables t)"
    and "selected_provider svc options = OPENAI"
    and "\<forall>messages options'. openaiService svc messages options' = Inl error"
  shows "fst (generateTutorResponse svc userMessage' history context options)
         = Throws (if instanceof_HttpException error then error
                   else HttpException ''Failed to generate AI response'' 500)"
proof -
  from renderTemplate_returns[OF assms(1,2)] obtain p where
    r: "renderTemplate (promptTemplateService svc) ''conversation_tutor''
             \<lparr>userId = ctx_userId context, conversationId = ctx_conversationId context,
              language = Some (or_else (ctx_language context) ''English''),
              level = Some (or_else (ctx_level context) ''intermediate''),
              userMessage = Some userMessage', conversationHistory = Some history,
              additionalContext = None\<rparr> = Returns p" by blast
  show ?thesis
    using assms(4) by (simp add: tutor_outcome[OF r] generateChatResponse_adapter_error[OF assms(3)])
qed

lemma partner_adapter_error:
  assumes "getTemplate (promptTemplateService svc) ''conversation_friend'' = Some t"
    and "list_all modelled_name (variables t)"
    and "selected_provider svc options = OPENAI"
    and "\<forall>messages options'. openaiService svc messages options' = Inl error"
  shows "fst (generateConversationPartnerResponse svc userMessage' history context options)
         = Throws (if instanceof_HttpException error then error
                   else HttpException ''Failed to generate AI response'' 500)"
proof -
  from renderTemplate_returns[OF assms(1,2)] obtain p where
    r: "renderTemplate (promptTemplateService svc) ''conversation_friend''
             \<lparr>userId = ctx_userId context, conversationId = ctx_conversationId context,
              language = Some (or_else (ctx_language context) ''English''),
              level = Some (or_else (ctx_level context) ''intermediate''),
              userMessage = Some userMessage', conversationHistory = Some history,
              additionalContext = None\<rparr> = Returns p" by blast
  have "selected_provider svc (Some ((spread options)\<lparr>temperature := Some (8 / 10)\<rparr>)) = OPENAI"
    using assms(3) by (simp add: selected_provider_temperature)
  from generateChatResponse_adapter_error[OF this] show ?thesis
    using assms(4) by (simp add: partner_outcome[OF r])
qed

lemma starters_adapter_error:
  assumes "getTemplate (promptTemplateService svc) ''conversation_starter'' = Some t"
    and "list_all modelled_name (variables t)"
    and "selected_provider svc options = OPENAI"
    and "\<forall>messages options'. openaiService svc messages options' = Inl error"
  shows "fst (generateConversationStarters svc context options)
         = Throws (if instanceof_HttpException error then error
                   else HttpException ''Failed to generate AI response'' 500)"
proof -
  from renderTemplate_returns[OF assms(1,2)] obtain p where
    r: "renderTemplate (promptTemplateService svc) ''conversation_starter''
       \<lparr>userId = None, conversationId = None,
        language = Some (or_else (ctx_language context) ''English''),
        level = Some (or_else (ctx_level context) ''intermediate''),
        userMessage = None, conversationHistory = None,
        additionalContext =
          Some [(''topics'', or_else (ctx_topics context)
                   ''general conversation, daily life, hobbies, travel'')]\<rparr> = Returns p"
    by blast
  have "selected_provider svc (Some ((spread options)\<lparr>temperature := Some (8 / 10)\<rparr>)) = OPENAI"
    using assms(3) by (simp add: selected_provider_temperature)
  from generateChatResponse_adapter_error[OF this] show ?thesis
    using r assms(4) by (simp add: generateConversationStarters_def)
qed

lemma analyze_adapter_error:
  assumes "\<forall>i \<in> set [''grammar_correction'', ''style_improvement'', ''vocabulary_analysis''].
             \<exists>t. getTemplate (promptTemplateService svc) i = Some t \<and> list_all modelled_name (variables t)"
    and "selected_provider svc options = OPENAI"
    and "\<forall>messages options'. openaiService svc messages options' = Inl error"
  shows "fst (analyzeText svc text analysisType context options)
         = Throws (if instanceof_HttpException error then error
                   else HttpException ''Failed to analyze text'' 500)"
proof -
  let ?i = "case analysisType of grammar \<Rightarrow> ''grammar_correction'' | style \<Rightarrow> ''style_improvement''
      | vocabulary \<Rightarrow> ''vocabulary_analysis''"
  from assms(1) analyzeText_template[of analysisType] obtain t where
    t: "getTemplate (promptTemplateService svc) ?i = Some t" "list_all modelled_name (variables t)"
    by blast
  from renderTemplate_returns[OF t] obtain p where
    "renderTemplate (promptTemplateService svc) ?i
       \<lparr>userId = None, conversationId = None,
        language = Some (or_else (ctx_language context) ''English''),
        level = Some (or_else (ctx_level context) ''intermediate''),
        userMessage = Some text, conversationHistory = None,
        additionalContext =
          Some [(''text'', text), (''level'', or_else (ctx_level context) ''intermediate'')]\<rparr> = Returns p"
    by blast
  then show ?thesis
    using assms(2,3)
    by (simp add: analyzeText_def Let_def catch_analyzeText_def INTERNAL_SERVER_ERROR_def)
qed

text \<open>
  Claim C4 fails as stated. In \<^verbatim>\<open>analyzeText\<close> the error of a template that is not
  registered does not pass through unchanged: the \<^verbatim>\<open>catch\<close> block lets through instances
  of \<^verbatim>\<open>HttpException\<close> only, and the caller gets \<^verbatim>\<open>Failed to analyze text\<close>. And an
  exception other than the two typed errors is not always normalized: an \<^verbatim>\<open>HttpException\<close>
  that the adapter throws, here one with status 429, reaches the caller of
  \<^verbatim>\<open>generateChatResponse\<close> as it is.
\<close>

theorem error_propagation_counterexample:
  "renderTemplate []
     ''grammar_correction''
     \<lparr>userId = None, conversationId = None, language = Some ''English'',
      level = Some ''intermediate'', userMessage = Some ''I are fine.'',
      conversationHistory = None,
      additionalContext = Some [(''text'', ''I are fine.''), (''level'', ''intermediate'')]\<rparr>
     = Throws (TemplateNotFound ''grammar_correction'')
   \<and> analyzeText
       \<lparr>openaiService = canned_adapter ''Hello!'', promptTemplateService = [],
        defaultProvider = OPENAI\<rparr>
       ''I are fine.'' grammar
       \<lparr>ctx_language = None, ctx_level = None, ctx_userId = None, ctx_conversationId = None,
        ctx_topics = None\<rparr>
       None
     = (Throws (HttpException ''Failed to analyze text'' 500), [])
   \<and> HttpException ''Failed to analyze text'' 500 \<noteq> TemplateNotFound ''grammar_correction''
   \<and> generateChatResponse
       \<lparr>openaiService = failing_adapter (HttpException ''Too Many Requests'' 429) :: string adapter,
        promptTemplateService = initializeDefaultTemplates [], defaultProvider = OPENAI\<rparr>
       [\<lparr>role = user, content = ''Hi'', timestamp = None\<rparr>]
       None
     = (Throws (HttpException ''Too Many Requests'' 429),
        [([\<lparr>role = user, content = ''Hi'', timestamp = None\<rparr>], None)])
   \<and> HttpException ''Too Many Requests'' 429 \<noteq> HttpException ''Failed to generate AI response'' 500"
  by (simp add: renderTemplate_def getTemplate_def TemplateNotFound_def analyzeText_def
      catch_analyzeText_def INTERNAL_SERVER_ERROR_def or_else_def generateChatResponse_def
      selected_provider_def failing_adapter_def catch_generateChatResponse_def)

text \<open>
  Claim C4, amended. \<^verbatim>\<open>generateChatResponse\<close> throws \<^verbatim>\<open>UnsupportedProvider\<close> (status 400)
  for every provider other than \<^verbatim>\<open>openai\<close>. \<^verbatim>\<open>UnsupportedProvider\<close> passes unchanged through
  \<^verbatim>\<open>generateTutorResponse\<close>, \<^verbatim>\<open>generateConversationPartnerResponse\<close>,
  \<^verbatim>\<open>generateConversationStarters\<close> and \<^verbatim>\<open>analyzeText\<close>. \<^verbatim>\<open>TemplateNotFound\<close> passes unchanged
  through the first three of these, and \<^verbatim>\<open>analyzeText\<close> turns it into
  \<^verbatim>\<open>Failed to analyze text\<close> (status 500). An exception of the adapter reaches the caller
  unchanged when it is an \<^verbatim>\<open>HttpException\<close>, and otherwise as the one opaque error of the
  operation: \<^verbatim>\<open>Failed to analyze text\<close> for \<^verbatim>\<open>analyzeText\<close> and
  \<^verbatim>\<open>Failed to generate AI response\<close> for the others (both status 500). Every error these
  operations throw is one of those named here.
\<close>

theorem error_propagation:
  "(selected_provider svc options \<noteq> OPENAI \<longrightarrow>
      generateChatResponse svc messages options
        = (Throws (UnsupportedProvider (selected_provider svc options)), []))
   \<and> ((\<forall>i \<in> set [''conversation_tutor'', ''conversation_friend'', ''conversation_starter'',
                    ''grammar_correction'', ''style_improvement'', ''vocabulary_analysis''].
          \<exists>t. getTemplate (promptTemplateService svc) i = Some t \<and> list_all modelled_name (variables t))
        \<and> selected_provider svc options \<noteq> OPENAI \<longrightarrow>
        fst (generateTutorResponse svc userMessage' history context options)
          = Throws (UnsupportedProvider (selected_provider svc options))
        \<and> fst (generateConversationPartnerResponse svc userMessage' history context options)
          = Throws (UnsupportedProvider (selected_provider svc options))
        \<and> fst (generateConversationStarters svc context options)
          = Throws (UnsupportedProvider (selected_provider svc options))
        \<and> fst (analyzeText svc text analysisType context options)
          = Throws (UnsupportedProvider (selected_provider svc options)))
   \<and> (getTemplate (promptTemplateService svc) ''conversation_tutor'' = None \<longrightarrow>
        generateTutorResponse svc userMessage' history context options
          = (Throws (TemplateNotFound ''conversation_tutor''), []))
   \<and> (getTemplate (promptTemplateService svc) ''conversation_friend'' = None \<longrightarrow>
        generateConversationPartnerResponse svc userMessage' history context options
          = (Throws (TemplateNotFound ''conversation_friend''), []))
   \<and> (getTemplate (promptTemplateService svc) ''conversation_starter'' = None \<longrightarrow>
        generateConversationStarters svc context options
          = (Throws (TemplateNotFound ''conversation_starter''), []))
   \<and> (getTemplate (promptTemplateService svc)
          (case analysisType of grammar \<Rightarrow> ''grammar_correction'' | style \<Rightarrow> ''style_improvement''
           | vocabulary \<Rightarrow> ''vocabulary_analysis'') = None \<longrightarrow>
        analyzeText svc text analysisType context options
          = (Throws (HttpException ''Failed to analyze text'' 500), []))
   \<and> (selected_provider svc options = OPENAI \<and> openaiService svc messages options = Inl error \<longrightarrow>
        fst (generateChatResponse svc messages options)
          = Throws (if instanceof_HttpException error then error
                    else HttpException ''Failed to generate AI response'' 500))
   \<and> ((\<forall>i \<in> set [''conversation_tutor'', ''conversation_friend'', ''conversation_starter'',
                    ''grammar_correction'', ''style_improvement'', ''vocabulary_analysis''].
          \<exists>t. getTemplate (promptTemplateService svc) i = Some t \<and> list_all modelled_name (variables t))
        \<and> selected_provider svc options = OPENAI
        \<and> (\<forall>messages options'. openaiService svc messages options' = Inl error) \<longrightarrow>
        fst (generateTutorResponse svc userMessage' history context options)
          = Throws (if instanceof_HttpException error then error
                    else HttpException ''Failed to generate AI response'' 500)
        \<and> fst (generateConversationPartnerResponse svc userMessage' history context options)
          = Throws (if instanceof_HttpException error then error
                    else HttpException ''Failed to generate AI response'' 500)
        \<and> fst (generateConversationStarters svc context options)
          = Throws (if instanceof_HttpException error then error
                    else HttpException ''Failed to generate AI response'' 500)
        \<and> fst (analyzeText svc text analysisType context options)
          = Throws (if instanceof_HttpException error then error
                    else HttpException ''Failed to analyze text'' 500))
   \<and> (\<forall>e. fst (generateChatResponse svc messages options) = Throws e \<longrightarrow>
          passed_or_normalized svc options ''Failed to generate AI response'' e)
   \<and> (\<forall>e. fst (generateTutorResponse svc userMessage' history context options) = Throws e \<longrightarrow>
          e = TemplateNotFound ''conversation_tutor''
          \<or> passed_or_normalized svc options ''Failed to generate AI response'' e)
   \<and> (\<forall>e. fst (generateConversationPartnerResponse svc userMessage' history context options) = Throws e \<longrightarrow>
          e = TemplateNotFound ''conversation_friend''
          \<or> passed_or_normalized svc options ''Failed to generate AI response'' e)
   \<and> (\<forall>e. fst (generateConversationStarters svc context options) = Throws e \<longrightarrow>
          e = TemplateNotFound ''conversation_starter''
          \<or> passed_or_normalized svc options ''Failed to generate AI response'' e)
   \<and> (\<forall>e. fst (analyzeText svc text analysisType context options) = Throws e \<longrightarrow>
          passed_or_normalized svc options ''Failed to analyze text'' e)"
proof (intro conjI impI allI)
  show "selected_provider svc options \<noteq> OPENAI \<Longrightarrow>
      generateChatResponse svc messages options
        = (Throws (UnsupportedProvider (selected_provider svc options)), [])"
    by (rule generateChatResponse_unsupported)
  show "selected_provider svc options = OPENAI \<and> openaiService svc messages options = Inl error \<Longrightarrow>
        fst (generateChatResponse svc messages options)
          = Throws (if instanceof_HttpException error then error
                    else HttpException ''Failed to generate AI response'' 500)"
    using generateChatResponse_adapter_error by blast
  show "getTemplate (promptTemplateService svc) ''conversation_tutor'' = None \<Longrightarrow>
        generateTutorResponse svc userMessage' history context options
          = (Throws (TemplateNotFound ''conversation_tutor''), [])"
    by (rule tutor_missing)
  show "getTemplate (promptTemplateService svc) ''conversation_friend'' = None \<Longrightarrow>
        generateConversationPartnerResponse svc userMessage' history context options
          = (Throws (TemplateNotFound ''conversation_friend''), [])"
    by (rule partner_missing)
  show "getTemplate (promptTemplateService svc) ''conversation_starter'' = None \<Longrightarrow>
        generateConversationStarters svc context options
          = (Throws (TemplateNotFound ''conversation_starter''), [])"
    by (rule starters_missing)
  show "getTemplate (promptTemplateService svc)
          (case analysisType of grammar \<Rightarrow> ''grammar_correction'' | style \<Rightarrow> ''style_improvement''
           | vocabulary \<Rightarrow> ''vocabulary_analysis'') = None \<Longrightarrow>
        analyzeText svc text analysisType context options
          = (Throws (HttpException ''Failed to analyze text'' 500), [])"
    by (rule analyze_missing)
next
  assume a: "(\<forall>i \<in> set [''conversation_tutor'', ''conversation_friend'', ''conversation_starter'',
                    ''grammar_correction'', ''style_improvement'', ''vocabulary_analysis''].
          \<exists>t. getTemplate (promptTemplateService svc) i = Some t \<and> list_all modelled_name (variables t))
        \<and> selected_provider svc options \<noteq> OPENAI"
  then have ne: "selected_provider svc options \<noteq> OPENAI" by blast
  from a show "fst (generateTutorResponse svc userMessage' history context options)
          = Throws (UnsupportedProvider (selected_provider svc options))"
    using tutor_unsupported[OF _ _ ne, of _ userMessage' history "context"] by auto
  from a show "fst (generateConversationPartnerResponse svc userMessage' history context options)
          = Throws (UnsupportedProvider (selected_provider svc options))"
    using partner_unsupported[OF _ _ ne, of _ userMessage' history "context"] by auto
  from a show "fst (generateConversationStarters svc context options)
          = Throws (UnsupportedProvider (selected_provider svc options))"
    using starters_unsupported[OF _ _ ne, of _ "context"] by auto
  from a show "fst (analyzeText svc text analysisType context options)
          = Throws (UnsupportedProvider (selected_provider svc options))"
    using analyze_unsupported[OF _ ne, of "text" analysisType "context"] by auto
next
  assume a: "(\<forall>i \<in> set [''conversation_tutor'', ''conversation_friend'', ''conversation_starter'',
                    ''grammar_correction'', ''style_improvement'', ''vocabulary_analysis''].
          \<exists>t. getTemplate (promptTemplateService svc) i = Some t \<and> list_all modelled_name (variables t))
        \<and> selected_provider svc options = OPENAI
        \<and> (\<forall>messages options'. openaiService svc messages options' = Inl error)"
  then have sel: "selected_provider svc options = OPENAI"
    and fails: "\<forall>messages options'. openaiService svc messages options' = Inl error"
    by blast+
  from a show "fst (generateTutorResponse svc userMessage' history context options)
          = Throws (if instanceof_HttpException error then error
                    else HttpException ''Failed to generate AI response'' 500)"
    using tutor_adapter_error[OF _ _ sel fails, of _ userMessage' history "context"] by auto
  from a show "fst (generateConversationPartnerResponse svc userMessage' history context options)
          = Throws (if instanceof_HttpException error then error
                    else HttpException ''Failed to generate AI response'' 500)"
    using partner_adapter_error[OF _ _ sel fails, of _ userMessage' history "context"] by auto
  from a show "fst (generateConversationStarters svc context options)
          = Throws (if instanceof_HttpException error then error
                    else HttpException ''Failed to generate AI response'' 500)"
    using starters_adapter_error[OF _ _ sel fails, of _ "context"] by auto
  from a show "fst (analyzeText svc text analysisType context options)
          = Throws (if instanceof_HttpException error then error
                    else HttpException ''Failed to analyze text'' 500)"
    using analyze_adapter_error[OF _ sel fails, of "text" analysisType "context"] by auto
next
  fix e
  show "fst (generateChatResponse svc messages options) = Throws e \<Longrightarrow>
          passed_or_normalized svc options ''Failed to generate AI response'' e"
    by (rule chat_throws)
  show "fst (generateTutorResponse svc userMessage' history context options) = Throws e \<Longrightarrow>
          e = TemplateNotFound ''conversation_tutor''
          \<or> passed_or_normalized svc options ''Failed to generate AI response'' e"
    by (rule tutor_throws)
  show "fst (generateConversationPartnerResponse svc userMessage' history context options) = Throws e \<Longrightarrow>
          e = TemplateNotFound ''conversation_friend''
          \<or> passed_or_normalized svc options ''Failed to generate AI response'' e"
    by (rule partner_throws)
  show "fst (generateConversationStarters svc context options) = Throws e \<Longrightarrow>
          e = TemplateNotFound ''conversation_starter''
          \<or> passed_or_normalized svc options ''Failed to generate AI response'' e"
    by (rule starters_throws)
  show "fst (analyzeText svc text analysisType context options) = Throws e \<Longrightarrow>
          passed_or_normalized svc options ''Failed to analyze text'' e"
    by (rule analyze_throws)
qed

theorem error_propagation_witness:
  "generateChatResponse
      \<lparr>openaiService = failing_adapter (Error ''socket hang up'') :: string adapter,
       promptTemplateService = initializeDefaultTemplates [], defaultProvider = OPENAI\<rparr>
      [\<lparr>role = user, content = ''Hi'', timestamp = None\<rparr>]
      (Some \<lparr>temperature = None, maxTokens = None, model = None, opt_conversationId = None,
             opt_userId = None, provider = Some ANTHROPIC\<rparr>)
     = (Throws (HttpException ''Unsupported AI provider: anthropic'' 400), [])
   \<and> fst (generateTutorResponse
        \<lparr>openaiService = failing_adapter (Error ''socket hang up'') :: string adapter,
         promptTemplateService = initializeDefaultTemplates [], defaultProvider = OPENAI\<rparr>
        ''Hi'' []
        \<lparr>ctx_language = None, ctx_level = None, ctx_userId = None, ctx_conversationId = None,
         ctx_topics = None\<rparr>
        (Some \<lparr>temperature = None, maxTokens = None, model = None, opt_conversationId = None,
               opt_userId = None, provider = Some ANTHROPIC\<rparr>))
     = Throws (HttpException ''Unsupported AI provider: anthropic'' 400)
   \<and> fst (analyzeText
        \<lparr>openaiService = failing_adapter (Error ''socket hang up'') :: string adapter,
         promptTemplateService = initializeDefaultTemplates [], defaultProvider = OPENAI\<rparr>
        ''I are fine.'' grammar
        \<lparr>ctx_language = None, ctx_level = None, ctx_userId = None, ctx_conversationId = None,
         ctx_topics = None\<rparr>
        (Some \<lparr>temperature = None, maxTokens = None, model = None, opt_conversationId = None,
               opt_userId = None, provider = Some ANTHROPIC\<rparr>))
     = Throws (HttpException ''Unsupported AI provider: anthropic'' 400)
   \<and> generateTutorResponse
        \<lparr>openaiService = failing_adapter (Error ''socket hang up'') :: string adapter,
         promptTemplateService = [], defaultProvider = OPENAI\<rparr>
        ''Hi'' []
        \<lparr>ctx_language = None, ctx_level = None, ctx_userId = None, ctx_conversationId = None,
         ctx_topics = None\<rparr>
        None
     = (Throws (Error ''Template not found: conversation_tutor''), [])
   \<and> analyzeText
        \<lparr>openaiService = failing_adapter (Error ''socket hang up'') :: string adapter,
         promptTemplateService = [], defaultProvider = OPENAI\<rparr>
        ''I are fine.'' grammar
        \<lparr>ctx_language = None, ctx_level = None, ctx_userId = None, ctx_conversationId = None,
         ctx_topics = None\<rparr>
        None
     = (Throws (HttpException ''Failed to analyze text'' 500), [])
   \<and> fst (generateChatResponse
        \<lparr>openaiService = failing_adapter (Error ''socket hang up'') :: string adapter,
         promptTemplateService = initializeDefaultTemplates [], defaultProvider = OPENAI\<rparr>
        [\<lparr>role = user, content = ''Hi'', timestamp = None\<rparr>] None)
     = Throws (HttpException ''Failed to generate AI response'' 500)
   \<and> fst (generateTutorResponse
        \<lparr>openaiService = failing_adapter (Error ''socket hang up'') :: string adapter,
         promptTemplateService = initializeDefaultTemplates [], defaultProvider = OPENAI\<rparr>
        ''Hi'' []
        \<lparr>ctx_language = None, ctx_level = None, ctx_userId = None, ctx_conversationId = None,
         ctx_topics = None\<rparr>
        None)
     = Throws (HttpException ''Failed to generate AI response'' 500)
   \<and> fst (analyzeText
        \<lparr>openaiService = failing_adapter (Error ''socket hang up'') :: string adapter,
         promptTemplateService = initializeDefaultTemplates [], defaultProvider = OPENAI\<rparr>
        ''I are fine.'' grammar
        \<lparr>ctx_language = None, ctx_level = None, ctx_userId = None, ctx_conversationId = None,
         ctx_topics = None\<rparr>
        None)
     = Throws (HttpException ''Failed to analyze text'' 500)
   \<and> fst (analyzeText
        \<lparr>openaiService = failing_adapter (HttpException ''Too Many Requests'' 429) :: string adapter,
         promptTemplateService = initializeDefaultTemplates [], defaultProvider = OPENAI\<rparr>
        ''I are fine.'' grammar
        \<lparr>ctx_language = None, ctx_level = None, ctx_userId = None, ctx_conversationId = None,
         ctx_topics = None\<rparr>
        None)
     = Throws (HttpException ''Too Many Requests'' 429)"
proof -
  let ?a = "\<lparr>openaiService = failing_adapter (Error ''socket hang up'') :: string adapter,
       promptTemplateService = initializeDefaultTemplates [], defaultProvider = OPENAI\<rparr>"
  let ?b = "\<lparr>openaiService = failing_adapter (Error ''socket hang up'') :: string adapter,
         promptTemplateService = [], defaultProvider = OPENAI\<rparr>"
  let ?c = "\<lparr>openaiService = failing_adapter (HttpException ''Too Many Requests'' 429) :: string adapter,
         promptTemplateService = initializeDefaultTemplates [], defaultProvider = OPENAI\<rparr>"
  let ?anthropic = "Some \<lparr>temperature = None, maxTokens = None, model = None, opt_conversationId = None,
             opt_userId = None, provider = Some ANTHROPIC\<rparr>"
  let ?ctx = "\<lparr>ctx_language = None, ctx_level = None, ctx_userId = None, ctx_conversationId = None,
         ctx_topics = None\<rparr>"
  let ?hi = "[\<lparr>role = user, content = ''Hi'', timestamp = None\<rparr>]"
  have registered:
    "\<forall>i \<in> set [''conversation_tutor'', ''conversation_friend'', ''conversation_starter'',
                    ''grammar_correction'', ''style_improvement'', ''vocabulary_analysis''].
          \<exists>t. getTemplate (promptTemplateService ?a) i = Some t \<and> list_all modelled_name (variables t)"
    "\<forall>i \<in> set [''conversation_tutor'', ''conversation_friend'', ''conversation_starter'',
                    ''grammar_correction'', ''style_improvement'', ''vocabulary_analysis''].
          \<exists>t. getTemplate (promptTemplateService ?c) i = Some t \<and> list_all modelled_name (variables t)"
    by (simp_all add: default_templates_registered default_templates_modelled)
  have sel: "selected_provider ?a ?anthropic = ANTHROPIC" "selected_provider ?a None = OPENAI"
    "selected_provider ?c None = OPENAI"
    by (simp_all add: selected_provider_def)
  have fails: "openaiService ?a ?hi None = Inl (Error ''socket hang up'')"
    "\<forall>messages options. openaiService ?a messages options = Inl (Error ''socket hang up'')"
    "\<forall>messages options. openaiService ?c messages options = Inl (HttpException ''Too Many Requests'' 429)"
    by (simp_all add: failing_adapter_def)
  have missing: "getTemplate (promptTemplateService ?b) ''conversation_tutor'' = None"
    "getTemplate (promptTemplateService ?b) ''grammar_correction'' = None"
    by (simp_all add: getTemplate_def)
  note unsupported = error_propagation[of ?a ?anthropic ?hi "''Hi''" "[]" ?ctx "''I are fine.''" grammar]
  note normalized = error_propagation[of ?a None ?hi "''Hi''" "[]" ?ctx "''I are fine.''" grammar
      "Error ''socket hang up''"]
  note not_found = error_propagation[of ?b None ?hi "''Hi''" "[]" ?ctx "''I are fine.''" grammar]
  note passed = error_propagation[of ?c None ?hi "''Hi''" "[]" ?ctx "''I are fine.''" grammar
      "HttpException ''Too Many Requests'' 429"]
  show ?thesis
    using registered sel fails missing unsupported normalized not_found passed
    by (simp add: UnsupportedProvider_def TemplateNotFound_def)
qed

section \<open>The correction extractor\<close>

lemma js_includes_prefix: "prefix t s \<Longrightarrow> js_includes s t"
  by (cases s) auto

lemma js_includes_append: "js_includes s t \<Longrightarrow> js_includes (r @ s) t"
  by (induction r) (auto simp: js_includes_prefix)

lemma js_includes_sublist: "js_includes s t \<longleftrightarrow> sublist t s"
proof (induction s)
  case Nil
  then show ?case by simp
next
  case (Cons c cs)
  show ?case
  proof (cases t)
    case Nil
    then show ?thesis by simp
  next
    case (Cons d ds)
    with Cons.IH show ?thesis
      by (metis js_includes.simps(2) sublist_Cons_right)
  qed
qed

text \<open>
  The first of the error patterns has no \<^verbatim>\<open>g\<close> flag, so the loop over them ends at its
  first \<^verbatim>\<open>matchAll\<close>, with a TypeError, whatever the reply is.
\<close>

lemma extract_errors_throws:
  "extract_errors eng aiResponse errorPatterns []
     = Inl (TypeError ''String.prototype.matchAll called with a non-global RegExp argument'')"
  by (simp add: errorPatterns_def matchAll_def global_def)

lemma parseGrammarCorrections_markers:
  "has_corrections aiResponse \<Longrightarrow>
     parseGrammarCorrections eng aiResponse originalText
       = \<lparr>hasErrors = False, correctedText = originalText, errors = [], explanation = fr_unavailable\<rparr>"
  by (simp add: parseGrammarCorrections_def try_parseGrammarCorrections_def extract_errors_throws)

lemma parseGrammarCorrections_no_marker:
  "\<not> has_corrections aiResponse \<Longrightarrow>
     parseGrammarCorrections eng aiResponse originalText
       = \<lparr>hasErrors = False, correctedText = originalText, errors = [], explanation = fr_correct\<rparr>"
  by (simp add: parseGrammarCorrections_def try_parseGrammarCorrections_def)

lemma scenario_markers:
  \<open>has_corrections (before' @ ''corrected version: "I am fine."'' @ after')\<close>
proof -
  have low: \<open>toLowerCase ''corrected version: "I am fine."'' = ''corrected version: "i am fine."''\<close>
    by code_simp
  have \<open>js_includes (toLowerCase before' @ ''corrected version: "i am fine."'' @ toLowerCase after')
           ''corrected''\<close>
    by (rule js_includes_append) simp
  then show ?thesis
    using low by (simp add: has_corrections_def toLowerCase_def)
qed

text \<open>
  Claim C9, on the code. For every reply that contains \<^verbatim>\<open>corrected version: "I am fine."\<close>
  and the original text \<^verbatim>\<open>I are fine.\<close>, whatever the regular expressions match, the
  extractor returns \<^verbatim>\<open>hasErrors = false\<close> and the original text as the corrected text,
  with the explanation of its \<^verbatim>\<open>catch\<close> block; and \<^verbatim>\<open>hasErrors\<close> is false for every reply
  and every original text.
\<close>

theorem parseGrammarCorrections_scenario_C:
  \<open>parseGrammarCorrections eng (before' @ ''corrected version: "I am fine."'' @ after') ''I are fine.''
     = \<lparr>hasErrors = False, correctedText = ''I are fine.'', errors = [],
        explanation = ''Analyse des corrections indisponible.''\<rparr>
   \<and> hasErrors (parseGrammarCorrections eng aiResponse originalText) = False\<close>
proof -
  have \<open>hasErrors (parseGrammarCorrections eng aiResponse originalText) = False\<close>
    by (cases "has_corrections aiResponse")
      (simp_all add: parseGrammarCorrections_markers parseGrammarCorrections_no_marker)
  then show ?thesis
    using parseGrammarCorrections_markers[OF scenario_markers, of eng before' after' "''I are fine.''"]
    by (simp add: fr_unavailable_def)
qed

section \<open>The cost of a completion\<close>

text \<open>
  Rounding to a number keeps the order of the non-negative rationals, and so does every
  step of the cost computation. The table has four entries, with non-negative prices, and
  none under a name that every object inherits.
\<close>

lemma round_half_even_floor:
  "\<lfloor>x\<rfloor> \<le> round_half_even x \<and> round_half_even x \<le> \<lfloor>x\<rfloor> + 1"
  by (simp add: round_half_even_def Let_def)

lemma round_half_even_ge: "of_int n \<le> x \<Longrightarrow> n \<le> round_half_even x"
proof -
  assume "of_int n \<le> x"
  then have "n \<le> \<lfloor>x\<rfloor>" by (simp add: le_floor_iff)
  then show ?thesis using round_half_even_floor[of x] by linarith
qed

lemma round_half_even_le: "x \<le> of_int n \<Longrightarrow> round_half_even x \<le> n"
proof (cases "x = of_int n")
  case True
  then show ?thesis by (simp add: round_half_even_def)
next
  case False
  assume "x \<le> of_int n"
  with False have "x < of_int n" by simp
  then have "\<lfloor>x\<rfloor> < n" by (simp add: floor_less_iff)
  then show ?thesis using round_half_even_floor[of x] by linarith
qed

lemma round_half_even_mono: "x \<le> y \<Longrightarrow> round_half_even x \<le> round_half_even y"
proof (cases "\<lfloor>x\<rfloor> = \<lfloor>y\<rfloor>")
  case True
  assume "x \<le> y"
  then have "x - of_int \<lfloor>x\<rfloor> \<le> y - of_int \<lfloor>y\<rfloor>" using True by simp
  then show ?thesis by (auto simp: round_half_even_def Let_def True)
next
  case False
  assume "x \<le> y"
  then have "\<lfloor>x\<rfloor> \<le> \<lfloor>y\<rfloor>" by (rule floor_mono)
  with False have "\<lfloor>x\<rfloor> + 1 \<le> \<lfloor>y\<rfloor>" by simp
  then show ?thesis using round_half_even_floor[of x] round_half_even_floor[of y] by linarith
qed

lemma exponent_bounds:
  assumes "0 < x"
  shows "2 powi exponent x \<le> x \<and> x < 2 powi (exponent x + 1)"
proof -
  obtain a b where q: "quotient_of x = (a, b)" by (cases "quotient_of x")
  then have x: "x = of_int a / of_int b" and b: "0 < b"
    by (simp_all add: quotient_of_div quotient_of_denom_pos)
  with assms have a: "0 < a"
    by (simp add: zero_less_divide_iff)
  let ?e = "bitlen a - bitlen b"
  have bits: "of_int c < (2::rat) powi bitlen c \<and> (2::rat) powi (bitlen c - 1) \<le> of_int c"
    if "0 < c" for c
  proof -
    from that have l: "1 \<le> bitlen c" by (auto simp: bitlen_alt_def)
    from bitlen_bounds[OF that] have "c < 2 ^ nat (bitlen c)" and "2 ^ nat (bitlen c - 1) \<le> c"
      by simp_all
    then have "rat_of_int c < of_int (2 ^ nat (bitlen c))"
      and "rat_of_int (2 ^ nat (bitlen c - 1)) \<le> of_int c"
      by (simp_all only: of_int_less_iff of_int_le_iff)
    then show ?thesis using l by (simp add: power_int_def)
  qed
  have pos: "0 < (2::rat) powi n" for n by simp
  have "x < 2 powi bitlen a / 2 powi (bitlen b - 1)"
    unfolding x using bits[OF a] bits[OF b] a b pos
    by (intro frac_less) simp_all
  then have upper: "x < 2 powi (?e + 1)"
    by (simp add: power_int_diff power_int_add field_simps)
  have "2 powi (bitlen a - 1) / 2 powi bitlen b \<le> x"
    unfolding x using bits[OF a] bits[OF b] a b pos
    by (intro frac_le) simp_all
  then have lower: "2 powi (?e - 1) \<le> x"
    by (simp add: power_int_diff power_int_add field_simps)
  have "2 powi (?e - 1 + 1) = (2::rat) powi ?e" by simp
  from upper lower
  show ?thesis
    by (auto simp: exponent_def q Let_def)
qed

lemma exponent_le:
  assumes "0 < x" and "x \<le> y"
  shows "exponent x \<le> exponent y"
proof -
  from assms have "0 < y" by simp
  from exponent_bounds[OF assms(1)] exponent_bounds[OF this] assms(2)
  have "(2::rat) powi exponent x < 2 powi (exponent y + 1)" by linarith
  then have "exponent x < exponent y + 1"
    by (metis power_int_increasing linorder_not_less one_le_numeral)
  then show ?thesis by simp
qed

lemma binary64_bounds:
  assumes "0 < x"
  shows "2 powi exponent x \<le> binary64 x \<and> binary64 x \<le> 2 powi (exponent x + 1)"
proof -
  let ?ulp = "(2::rat) powi (exponent x - 52)"
  have ulp: "0 < ?ulp" by simp
  have lo: "2 powi exponent x = of_int (2 ^ 52) * ?ulp"
    by (simp add: power_int_diff)
  have hi: "2 powi (exponent x + 1) = of_int (2 ^ 53) * ?ulp"
    by (simp add: power_int_diff power_int_add)
  from exponent_bounds[OF assms] have "of_int (2 ^ 52) * ?ulp \<le> x" "x \<le> of_int (2 ^ 53) * ?ulp"
    unfolding lo[symmetric] hi[symmetric] by simp_all
  then have "of_int (2 ^ 52) \<le> x / ?ulp" "x / ?ulp \<le> of_int (2 ^ 53)"
    using ulp by (simp_all add: pos_le_divide_eq pos_divide_le_eq)
  then have "2 ^ 52 \<le> round_half_even (x / ?ulp)" "round_half_even (x / ?ulp) \<le> 2 ^ 53"
    by (simp_all only: round_half_even_ge round_half_even_le)
  then have "rat_of_int (2 ^ 52) \<le> of_int (round_half_even (x / ?ulp))"
    "rat_of_int (round_half_even (x / ?ulp)) \<le> of_int (2 ^ 53)"
    by (simp_all only: of_int_le_iff)
  then have "of_int (2 ^ 52) * ?ulp \<le> of_int (round_half_even (x / ?ulp)) * ?ulp"
    "of_int (round_half_even (x / ?ulp)) * ?ulp \<le> of_int (2 ^ 53) * ?ulp"
    using ulp by (simp_all only: mult_le_cancel_right_pos)
  then show ?thesis
    unfolding lo hi using assms by (simp add: binary64_def Let_def)
qed

lemma binary64_mono:
  assumes "0 \<le> x" and "x \<le> y"
  shows "binary64 x \<le> binary64 y"
proof (cases "x = 0")
  case True
  show ?thesis
  proof (cases "y = 0")
    case True
    with \<open>x = 0\<close> show ?thesis by simp
  next
    case False
    with assms have "0 < y" by simp
    from binary64_bounds[OF this] have "0 \<le> binary64 y"
      by (meson order_trans zero_le_power_int zero_le_numeral)
    with True show ?thesis by (simp add: binary64_def)
  qed
next
  case False
  with assms have x: "0 < x" and y: "0 < y" by simp_all
  from exponent_le[OF x assms(2)] consider "exponent x = exponent y" | "exponent x + 1 \<le> exponent y"
    by linarith
  then show ?thesis
  proof cases
    case 1
    let ?ulp = "(2::rat) powi (exponent x - 52)"
    have "x / ?ulp \<le> y / ?ulp" using assms(2) by (simp add: divide_right_mono)
    then have "round_half_even (x / ?ulp) \<le> round_half_even (y / ?ulp)"
      by (rule round_half_even_mono)
    then have "rat_of_int (round_half_even (x / ?ulp)) * ?ulp \<le> of_int (round_half_even (y / ?ulp)) * ?ulp"
      by (simp add: mult_right_mono)
    then show ?thesis using x y 1 by (simp add: binary64_def Let_def)
  next
    case 2
    then have "(2::rat) powi (exponent x + 1) \<le> 2 powi exponent y"
      by (simp add: power_int_increasing)
    with binary64_bounds[OF x] binary64_bounds[OF y] show ?thesis by linarith
  qed
qed

lemma binary64_nonneg: "0 \<le> x \<Longrightarrow> 0 \<le> binary64 x"
  using binary64_mono[of 0 x] by (simp add: binary64_def)


lemma toFixed_nonneg:
  "0 \<le> x \<Longrightarrow> toFixed (Finite x) digits = Some (of_int \<lfloor>x * 10 ^ digits + 1 / 2\<rfloor> / 10 ^ digits)"
proof (cases "x = 0")
  case True
  have "\<lfloor>1 / 2 :: rat\<rfloor> = 0" by (simp add: floor_eq_iff)
  with True show ?thesis by simp
next
  case False
  assume "0 \<le> x"
  with False show ?thesis by simp
qed

lemma rounded_mono:
  assumes "0 \<le> x" and "x \<le> y"
  shows "\<exists>u v. rounded digits (Finite x) = Finite u \<and> rounded digits (Finite y) = Finite v
           \<and> 0 \<le> u \<and> u \<le> v"
proof -
  let ?r = "\<lambda>z::rat. rat_of_int \<lfloor>z * 10 ^ digits + 1 / 2\<rfloor> / 10 ^ digits"
  from assms have y: "0 \<le> y" by simp
  have "x * 10 ^ digits + 1 / 2 \<le> y * 10 ^ digits + 1 / 2"
    using assms(2) by (simp add: mult_right_mono)
  then have "\<lfloor>x * 10 ^ digits + 1 / 2\<rfloor> \<le> \<lfloor>y * 10 ^ digits + 1 / 2\<rfloor>"
    by (rule floor_mono)
  then have le: "?r x \<le> ?r y"
    by (simp add: divide_right_mono)
  have "0 \<le> x * 10 ^ digits + 1 / 2" using assms(1) by simp
  then have "0 \<le> \<lfloor>x * 10 ^ digits + 1 / 2\<rfloor>" by simp
  then have nonneg: "0 \<le> ?r x" by simp
  show ?thesis
    using binary64_mono[OF nonneg le] binary64_nonneg[OF nonneg]
    by (simp add: rounded_def toFixed_nonneg[OF assms(1)] toFixed_nonneg[OF y] del: toFixed.simps)
qed

lemma cost_mono:
  assumes "0 \<le> i" and "0 \<le> o'" and "p \<le> p'" and "c \<le> c'"
  shows "less_equal
           (rounded 6 (add (multiply (per_million (token_count p)) (Finite i))
                           (multiply (per_million (token_count c)) (Finite o'))))
           (rounded 6 (add (multiply (per_million (token_count p')) (Finite i))
                           (multiply (per_million (token_count c')) (Finite o'))))"
proof -
  have scaled: "0 \<le> binary64 (binary64 (of_nat m / 1000000) * k)
                \<and> binary64 (binary64 (of_nat m / 1000000) * k)
                    \<le> binary64 (binary64 (of_nat n / 1000000) * k)"
    if "0 \<le> k" and "m \<le> n" for k :: rat and m n :: nat
  proof -
    have a: "0 \<le> binary64 (of_nat m / 1000000)"
      by (rule binary64_nonneg) simp
    have "rat_of_nat m / 1000000 \<le> of_nat n / 1000000"
      using that(2) by (simp add: divide_right_mono)
    then have "binary64 (of_nat m / 1000000) \<le> binary64 (of_nat n / 1000000)"
      by (intro binary64_mono) simp_all
    then have b: "binary64 (of_nat m / 1000000) * k \<le> binary64 (of_nat n / 1000000) * k"
      using that(1) by (rule mult_right_mono)
    have c: "0 \<le> binary64 (of_nat m / 1000000) * k"
      using a that(1) by simp
    show ?thesis
      using binary64_nonneg[OF c] binary64_mono[OF c b] by simp
  qed
  let ?x = "binary64 (binary64 (of_nat p / 1000000) * i) + binary64 (binary64 (of_nat c / 1000000) * o')"
  let ?y = "binary64 (binary64 (of_nat p' / 1000000) * i) + binary64 (binary64 (of_nat c' / 1000000) * o')"
  have nonneg: "0 \<le> ?x" and le: "?x \<le> ?y"
    using scaled[OF assms(1,3)] scaled[OF assms(2,4)] by simp_all
  from rounded_mono[OF binary64_nonneg[OF nonneg] binary64_mono[OF nonneg le], of 6]
  show ?thesis
    by (auto simp: token_count_def)
qed

lemma price_entries:
  "has_price_entry model' \<longleftrightarrow> model' \<in> set [''gpt-4o-mini'', ''gpt-4o'', ''gpt-4'', ''gpt-3.5-turbo'']"
  "inputPrice ''gpt-4o-mini'' = Some (literal (15 / 100))"
  "outputPrice ''gpt-4o-mini'' = Some (literal (6 / 10))"
  "inputPrice ''gpt-4o'' = Some (literal (25 / 10))"
  "outputPrice ''gpt-4o'' = Some (literal 10)"
  "inputPrice ''gpt-4'' = Some (literal 30)"
  "outputPrice ''gpt-4'' = Some (literal 60)"
  "inputPrice ''gpt-3.5-turbo'' = Some (literal (5 / 10))"
  "outputPrice ''gpt-3.5-turbo'' = Some (literal (15 / 10))"
  by (auto simp: has_price_entry_def inputPrice_def outputPrice_def pricing_def)

lemma pricing_prices:
  assumes "map_of pricing model' = Some entry"
  shows "\<exists>i o'. input entry = Some (Finite i) \<and> output entry = Some (Finite o') \<and> 0 \<le> i \<and> 0 \<le> o'"
  using assms
  by (auto simp: pricing_def literal_def binary64_nonneg split: if_splits)

lemma pricing_not_inherited:
  "inherited_property model' \<Longrightarrow> map_of pricing model' = None"
  by (auto simp: pricing_def inherited_property_def)

lemma calculateCost_priced:
  "has_price_entry model' \<Longrightarrow>
     calculateCost model' (token_count p) (token_count c) = cost model' p c"
  by (auto simp: has_price_entry_def calculateCost_def pricing_member_def cost_def rounded_def
      inputPrice_def outputPrice_def Let_def)

lemma rounded_places:
  assumes "0 \<le> x"
  shows "\<exists>n::nat. rounded digits (Finite x) = Finite (binary64 (of_nat n / 10 ^ digits))"
proof -
  have "0 \<le> x * 10 ^ digits + 1 / 2" using assms by simp
  then have "0 \<le> \<lfloor>x * 10 ^ digits + 1 / 2\<rfloor>" by simp
  then have "rat_of_nat (nat \<lfloor>x * 10 ^ digits + 1 / 2\<rfloor>) = of_int \<lfloor>x * 10 ^ digits + 1 / 2\<rfloor>"
    by simp
  then have "rounded digits (Finite x)
             = Finite (binary64 (of_nat (nat \<lfloor>x * 10 ^ digits + 1 / 2\<rfloor>) / 10 ^ digits))"
    by (simp add: rounded_def toFixed_nonneg[OF assms] del: toFixed.simps)
  then show ?thesis by blast
qed

lemma cost_places:
  assumes "has_price_entry model'"
  shows "\<exists>n::nat. cost model' p c = Finite (binary64 (of_nat n / 1000000))"
proof -
  from assms obtain entry where entry: "map_of pricing model' = Some entry"
    by (auto simp: has_price_entry_def)
  from pricing_prices[OF entry] obtain i o' where
    prices: "input entry = Some (Finite i)" "output entry = Some (Finite o')" "0 \<le> i" "0 \<le> o'"
    by blast
  let ?s = "binary64 (binary64 (binary64 (of_nat p / 1000000) * i)
                      + binary64 (binary64 (of_nat c / 1000000) * o'))"
  have "0 \<le> ?s"
    using prices(3,4)
    by (intro binary64_nonneg add_nonneg_nonneg mult_nonneg_nonneg) simp_all
  from rounded_places[OF this, of 6] show ?thesis
    by (simp add: cost_def inputPrice_def outputPrice_def entry prices token_count_def)
qed

lemma calculateCost_no_entry:
  "\<not> has_price_entry model' \<Longrightarrow> \<not> inherited_property model' \<Longrightarrow> calculateCost model' x y = Finite 0"
  by (simp add: has_price_entry_def calculateCost_def pricing_member_def)

lemma calculateCost_inherited:
  "inherited_property model' \<Longrightarrow> calculateCost model' x y = NaN"
  by (simp add: calculateCost_def pricing_member_def pricing_not_inherited Let_def)

lemma calculateCost_mono:
  assumes "\<not> inherited_property model'" and "p \<le> p'" and "c \<le> c'"
  shows "less_equal (calculateCost model' (token_count p) (token_count c))
                    (calculateCost model' (token_count p') (token_count c'))"
proof (cases "map_of pricing model'")
  case None
  then show ?thesis
    using assms(1) by (simp add: calculateCost_def pricing_member_def)
next
  case (Some entry)
  from pricing_prices[OF Some] obtain i o' where
    "input entry = Some (Finite i)" "output entry = Some (Finite o')" "0 \<le> i" "0 \<le> o'"
    by blast
  then show ?thesis
    using cost_mono[OF \<open>0 \<le> i\<close> \<open>0 \<le> o'\<close> assms(2,3)]
    by (simp add: calculateCost_def pricing_member_def Some Let_def rounded_def)
qed

text \<open>
  The arithmetic is that of numbers, not of decimals. For \<^verbatim>\<open>gpt-4o-mini\<close>, 2 prompt tokens
  and 12 completion tokens the decimals give 0.0000075, a tie between 0.000007 and
  0.000008; the sum of the two products as numbers lies below the tie, and the cost is the
  number nearest to 0.000007.
\<close>

lemma calculateCost_tie:
  "calculateCost ''gpt-4o-mini'' (token_count 2) (token_count 12) = Finite (binary64 (7 / 1000000))
   \<and> (2 / 1000000) * (15 / 100) + (12 / 1000000) * (6 / 10) = (75 / 10000000 :: rat)"
  by code_simp

text \<open>
  Claim C8, on the code. For a model with a price entry the cost is the formula of the
  specification, in the arithmetic of numbers, and it is the number nearest to a decimal
  with 6 places. For a model without one the cost is 0 unless
  the name of the model is one that every object inherits, such as \<^verbatim>\<open>toString\<close>: then the
  lookup in the table finds the inherited member, the guard for a missing price does not
  fire, and the cost is \<^verbatim>\<open>NaN\<close>. For every other model the cost does not decrease when the
  token counts grow.
\<close>

theorem calculateCost_cost:
  "(has_price_entry model' \<longrightarrow>
      calculateCost model' (token_count promptTokens) (token_count completionTokens)
        = cost model' promptTokens completionTokens
      \<and> (\<exists>n::nat. cost model' promptTokens completionTokens
                      = Finite (binary64 (of_nat n / 1000000))))
   \<and> (\<not> has_price_entry model' \<and> \<not> inherited_property model' \<longrightarrow>
        calculateCost model' x y = Finite 0)
   \<and> (inherited_property model' \<longrightarrow> \<not> has_price_entry model' \<and> calculateCost model' x y = NaN)
   \<and> (\<not> inherited_property model' \<and> promptTokens \<le> promptTokens'
        \<and> completionTokens \<le> completionTokens' \<longrightarrow>
        less_equal (calculateCost model' (token_count promptTokens) (token_count completionTokens))
                   (calculateCost model' (token_count promptTokens') (token_count completionTokens')))"
  using calculateCost_priced cost_places calculateCost_no_entry calculateCost_inherited
    calculateCost_mono pricing_not_inherited
  by (simp add: has_price_entry_def)

theorem calculateCost_cost_witness:
  "calculateCost ''gpt-4o-mini'' (token_count 1000) (token_count 500)
     = Finite (binary64 (45 / 100000))
   \<and> calculateCost ''gpt-4o-mini-2024-07-18'' (token_count 1000) (token_count 500) = Finite 0
   \<and> calculateCost ''toString'' (token_count 1000) (token_count 500) = NaN
   \<and> less_equal (calculateCost ''gpt-4o-mini'' (token_count 1000) (token_count 500))
                 (calculateCost ''gpt-4o-mini'' (token_count 1001) (token_count 500))"
proof -
  have entries: "has_price_entry ''gpt-4o-mini''" "\<not> has_price_entry ''gpt-4o-mini-2024-07-18''"
    by (simp_all add: has_price_entry_def pricing_def)
  have names: "\<not> inherited_property ''gpt-4o-mini''"
    "\<not> inherited_property ''gpt-4o-mini-2024-07-18''" "inherited_property ''toString''"
    by (simp_all add: inherited_property_def)
  have formula: "cost ''gpt-4o-mini'' 1000 500 = Finite (binary64 (45 / 100000))"
    by code_simp
  note priced = calculateCost_cost[of "''gpt-4o-mini''" 1000 500 _ _ 1001 500]
  have a: "calculateCost ''gpt-4o-mini'' (token_count 1000) (token_count 500)
             = Finite (binary64 (45 / 100000))"
    using priced entries(1) formula by simp
  have b: "calculateCost ''gpt-4o-mini-2024-07-18'' (token_count 1000) (token_count 500) = Finite 0"
    using calculateCost_cost[of "''gpt-4o-mini-2024-07-18''" _ _ "token_count 1000" "token_count 500"]
      entries(2) names(2) by simp
  have c: "calculateCost ''toString'' (token_count 1000) (token_count 500) = NaN"
    using calculateCost_cost[of "''toString''" _ _ "token_count 1000" "token_count 500"] names(3)
    by simp
  have d: "less_equal (calculateCost ''gpt-4o-mini'' (token_count 1000) (token_count 500))
             (calculateCost ''gpt-4o-mini'' (token_count 1001) (token_count 500))"
    using priced names(1) by simp
  show ?thesis
    using a b c d by (intro conjI)
qed

end
